theory Spec2Isabelle
  imports Main "HOL-Library.Char_ord" "HOL-Library.List_Lexorder" "HOL-Library.AList"
begin

section \<open>Data model\<close>

text \<open>
  A value thrown or rejected by JavaScript code. \<open>ErrorObject\<close> is an \<open>Error\<close> instance
  with its \<open>name\<close>, \<open>message\<close>, \<open>stack\<close> (absent or a string) and the optional
  \<open>subtype\<close> that \<open>ContractError\<close> carries. \<open>Rejected s\<close> is a thrown primitive string, as
  \<open>timeout\<close> in utils rejects with the string \<open>timeout\<close>: reading \<open>name\<close>, \<open>stack\<close> or
  \<open>message\<close> of it gives \<open>undefined\<close>.
\<close>

datatype js_thrown =
    ErrorObject (ename: string) (emessage: string) (estack: "string option") (esubtype: "string option")
  | Rejected string

text \<open>
  \<open>GQLNodeInterface\<close>: an interaction transaction, with the fields the evaluator, the
  loaders and the cache read. \<open>dry\<close> and \<open>confirmationStatus\<close> are optional fields
  (\<open>None\<close> is \<open>undefined\<close>).
\<close>

record GQLNodeInterface =
  tx_id :: string
  sortKey :: string
  dry :: "bool option"
  confirmationStatus :: "string option"
  owner_address :: string
  vrf :: "string option"
  tags :: "(string \<times> string) list"

text \<open>
  A value stored under an interaction id in \<open>errorMessages\<close>: a string, or the caught error
  object itself (\<open>errorMessages[missingInteraction.id] = e\<close> in the internal-write branch).
\<close>

datatype errval = Msg string | ErrVal js_thrown

text \<open>
  \<open>EvalStateResult\<close>. The two \<open>Record<string, _>\<close> objects are maps from interaction id;
  \<open>None\<close> is what reading a missing key gives (\<open>undefined\<close>), and assigning \<open>undefined\<close>
  to a key is written as updating the map to \<open>None\<close> there.
\<close>

record 's EvalStateResult =
  state :: 's
  validity :: "string \<Rightarrow> bool option"
  errorMessages :: "string \<Rightarrow> errval option"

text \<open>\<open>SortKeyCacheResult\<close>; the sort key is \<open>null\<close> when a fold ran over no interaction.\<close>

datatype 'v SortKeyCacheResult =
  SortKeyCacheResult (resultSortKey: "string option") (cachedValue: 'v)

section \<open>The sort-key cache (LevelDbCache)\<close>

text \<open>
  The store maps \<open>(contract tx id, sort key)\<close> to a value: one sub-level per contract, the
  keys of a sub-level ordered lexicographically. It is kept as an association list with
  distinct keys; every read that depends on the order sorts the keys.
\<close>

type_synonym 'v LevelDb = "((string \<times> string) \<times> 'v) list"

definition LevelDbCache_put :: "string \<times> string \<Rightarrow> 'v \<Rightarrow> 'v LevelDb \<Rightarrow> 'v LevelDb" where
  "LevelDbCache_put stateCacheKey v db = AList.update stateCacheKey v db"

definition LevelDbCache_get :: "string \<times> string \<Rightarrow> 'v LevelDb \<Rightarrow> 'v SortKeyCacheResult option" where
  "LevelDbCache_get cacheKey db =
     (case map_of db cacheKey of
        None \<Rightarrow> None
      | Some result \<Rightarrow> Some (SortKeyCacheResult (Some (snd cacheKey)) result))"

section \<open>CacheableStateEvaluator.putInCache\<close>

text \<open>
  The cache is passed in and returned. \<open>state.errorMessages || {}\<close> is the map itself: an
  \<open>EvalStateResult\<close> always carries one.
\<close>

definition putInCache ::
  "string \<Rightarrow> GQLNodeInterface \<Rightarrow> 's EvalStateResult \<Rightarrow> 's EvalStateResult LevelDb
     \<Rightarrow> 's EvalStateResult LevelDb" where
  "putInCache contractTxId transaction st cache =
     (if dry transaction = Some True then cache
      else if confirmationStatus transaction \<noteq> None
              \<and> confirmationStatus transaction \<noteq> Some ''confirmed'' then cache
      else
        let stateToCache =
              \<lparr>state = state st, validity = validity st, errorMessages = errorMessages st\<rparr>
        in LevelDbCache_put (contractTxId, sortKey transaction) stateToCache cache)"

text \<open>A sequence of cache writes, each made through \<open>putInCache\<close>, in order.\<close>

fun putInCache_all ::
  "(string \<times> GQLNodeInterface \<times> 's EvalStateResult) list \<Rightarrow> 's EvalStateResult LevelDb
     \<Rightarrow> 's EvalStateResult LevelDb" where
  "putInCache_all [] cache = cache"
| "putInCache_all ((c, i, st) # ws) cache = putInCache_all ws (putInCache c i st cache)"

section \<open>LevelDbCache.prune\<close>

text \<open>
  The argument of \<open>prune(entriesStored = 5)\<close> as a caller can pass it: nothing
  (\<open>undefined\<close>, which the default parameter replaces by 5), \<open>null\<close>, or a number.
\<close>

datatype prune_arg = ArgUndefined | ArgNull | ArgNum int

text \<open>The parameter after the default is applied: \<open>None\<close> is \<open>null\<close>.\<close>

definition default_entriesStored :: "prune_arg \<Rightarrow> int option" where
  "default_entriesStored a =
     (case a of ArgUndefined \<Rightarrow> Some 5 | ArgNull \<Rightarrow> None | ArgNum n \<Rightarrow> Some n)"

text \<open>\<open>if (!entriesStored || entriesStored <= 0) entriesStored = 1\<close>\<close>

definition entriesStored_of :: "prune_arg \<Rightarrow> int" where
  "entriesStored_of a =
     (case default_entriesStored a of
        None \<Rightarrow> 1
      | Some entriesStored \<Rightarrow> if entriesStored = 0 \<or> entriesStored \<le> 0 then 1 else entriesStored)"

text \<open>
  The key under which the underlying flat store holds an entry of a sub-level:
  \<open>!<contract_tx_id>!<sort_key>\<close>.
\<close>

definition flat_key :: "string \<times> string \<Rightarrow> string" where
  "flat_key k = ''!'' @ fst k @ ''!'' @ snd k"

text \<open>
  \<open>keys()\<close> lists the contracts of the store: it reads all flat keys in order, cuts
  \<open>substring(1, 44)\<close> out of each (the contract tx id when that has 43 characters) and
  collects the results in a \<open>Set\<close>, which keeps the first occurrence of each.
\<close>

definition LevelDbCache_keys :: "'v LevelDb \<Rightarrow> string list" where
  "LevelDbCache_keys db =
     rev (remdups (rev (map (\<lambda>k. take 43 (drop 1 k)) (sort (map (\<lambda>e. flat_key (fst e)) db)))))"

text \<open>The sort keys of one contract's sub-level, ascending.\<close>

definition sublevel_keys :: "'v LevelDb \<Rightarrow> string \<Rightarrow> string list" where
  "sublevel_keys db c = sort (map (\<lambda>e. snd (fst e)) (filter (\<lambda>e. fst (fst e) = c) db))"

text \<open>\<open>contractCache.keys({ reverse: true, limit: n }).all()\<close>\<close>

definition sublevel_keys_reverse_limit :: "'v LevelDb \<Rightarrow> string \<Rightarrow> int \<Rightarrow> string list" where
  "sublevel_keys_reverse_limit db c n = take (nat n) (rev (sublevel_keys db c))"

text \<open>\<open>contractCache.clear({ lt: bound })\<close>\<close>

definition sublevel_clear_lt :: "'v LevelDb \<Rightarrow> string \<Rightarrow> string \<Rightarrow> 'v LevelDb" where
  "sublevel_clear_lt db c bound = filter (\<lambda>e. \<not> (fst (fst e) = c \<and> snd (fst e) < bound)) db"

text \<open>
  \<open>this.db.sublevel(name)\<close> is the library's: it trims the separator \<open>!\<close> from both ends of
  the name and then throws, with the error code \<open>LEVEL_INVALID_PREFIX\<close>, unless every byte
  of the name is greater than 34 and less than 127. The sub-level of an accepted name holds
  the flat keys that begin with \<open>!name!\<close>, which are the entries of the contract \<open>name\<close>,
  the ids under which entries are put being names that \<open>sublevel\<close> accepted.
\<close>

datatype level_error = LEVEL_INVALID_PREFIX

definition trim_separator :: "string \<Rightarrow> string" where
  "trim_separator name =
     rev (dropWhile (\<lambda>ch. ch = CHR ''!'') (rev (dropWhile (\<lambda>ch. ch = CHR ''!'') name)))"

definition sublevel :: "string \<Rightarrow> level_error + string" where
  "sublevel name =
     (let trimmed = trim_separator name in
      if list_all (\<lambda>ch. 34 < (of_char ch :: nat) \<and> (of_char ch :: nat) < 127) trimmed
      then Inr trimmed
      else Inl LEVEL_INVALID_PREFIX)"

text \<open>
  The loop of \<open>prune\<close> over the names that \<open>keys()\<close> returned. The result is the store the
  call leaves and the error it threw, if any: when \<open>sublevel\<close> throws, the call ends there,
  the contracts before are pruned and the ones after are not.
\<close>

fun prune_loop ::
  "string list \<Rightarrow> int \<Rightarrow> 'v LevelDb \<Rightarrow> 'v LevelDb \<times> level_error option" where
  "prune_loop [] entriesStored db = (db, None)"
| "prune_loop (c # contracts) entriesStored db =
     (case sublevel c of
        Inl e \<Rightarrow> (db, Some e)
      | Inr contractCache \<Rightarrow>
          let entries = sublevel_keys_reverse_limit db contractCache entriesStored in
          if int (length entries) < entriesStored then prune_loop contracts entriesStored db
          else prune_loop contracts entriesStored
                 (sublevel_clear_lt db contractCache (last entries)))"

definition LevelDbCache_prune ::
  "prune_arg \<Rightarrow> 'v LevelDb \<Rightarrow> 'v LevelDb \<times> level_error option" where
  "LevelDbCache_prune a db = prune_loop (LevelDbCache_keys db) (entriesStored_of a) db"

text \<open>
  The keys of one contract, given in ascending order, that a prune to \<open>n\<close> entries
  leaves: all of them when there are fewer than \<open>n\<close>, otherwise the \<open>n\<close> greatest.
\<close>

definition retained_keys :: "nat \<Rightarrow> string list \<Rightarrow> string list" where
  "retained_keys n ks = (if length ks < n then ks else drop (length ks - n) ks)"

section \<open>CacheableInteractionsLoader.load\<close>

text \<open>
  \<open>a.localeCompare(b)\<close> is the engine's \<open>String.prototype.localeCompare\<close>, a collation
  of the host's locale and no function of this repository: the loader takes it as the
  parameter \<open>localeCompare\<close>. \<open>lexicographicCompare\<close> is the comparison by character
  codes, with which the collation agrees on well-formed sort keys (digits, commas and
  lower-case letters) and not on every pair of strings.
\<close>

definition lexicographicCompare :: "string \<Rightarrow> string \<Rightarrow> int" where
  "lexicographicCompare a b = (if a < b then - 1 else if a = b then 0 else 1)"

text \<open>The string an optional string argument is compared as: \<open>undefined\<close> is converted.\<close>

definition compareString :: "string option \<Rightarrow> string" where
  "compareString x = (case x of None \<Rightarrow> ''undefined'' | Some s \<Rightarrow> s)"

text \<open>
  The wrapped loader (\<open>delegate.load\<close>) maps contract id and the two optional bounds to a
  list of interactions or fails; \<open>genesisSortKey\<close> is imported from the sorter. Both are
  parameters. The memo \<open>interactionsCache\<close> is a \<open>Map\<close> from contract id; the result is the
  returned list together with the memo after the call.
\<close>

type_synonym InteractionsLoader =
  "string \<Rightarrow> string option \<Rightarrow> string option \<Rightarrow> js_thrown + GQLNodeInterface list"

definition CacheableInteractionsLoader_load ::
  "(string \<Rightarrow> string \<Rightarrow> int) \<Rightarrow> InteractionsLoader \<Rightarrow> string \<Rightarrow> string \<Rightarrow> string option
     \<Rightarrow> string option \<Rightarrow> (string \<rightharpoonup> GQLNodeInterface list)
     \<Rightarrow> js_thrown + (GQLNodeInterface list \<times> (string \<rightharpoonup> GQLNodeInterface list))" where
  "CacheableInteractionsLoader_load localeCompare delegate genesisSortKey contractTxId fromSortKey
       toSortKey interactionsCache =
     (case interactionsCache contractTxId of
        None \<Rightarrow>
          (case delegate contractTxId fromSortKey toSortKey of
             Inl e \<Rightarrow> Inl e
           | Inr interactions \<Rightarrow>
               Inr (interactions,
                    interactionsCache(contractTxId \<mapsto> (if interactions \<noteq> [] then interactions else []))))
      | Some cachedInteractions \<Rightarrow>
          let lastCachedKey =
                (if cachedInteractions \<noteq> [] then sortKey (last cachedInteractions)
                 else genesisSortKey)
          in if localeCompare lastCachedKey (compareString toSortKey) < 0 then
               (case delegate contractTxId (Some lastCachedKey) toSortKey of
                  Inl e \<Rightarrow> Inl e
                | Inr missingInteractions \<Rightarrow>
                    let allInteractions = cachedInteractions @ missingInteractions
                    in Inr (allInteractions, interactionsCache(contractTxId \<mapsto> allInteractions)))
             else Inr (cachedInteractions, interactionsCache))"

section \<open>WarpGatewayInteractionsLoader.load\<close>

text \<open>Decimal text of a number, as a template string prints it.\<close>

fun decimal :: "nat \<Rightarrow> string" where
  "decimal n =
     (if n < 10 then [''0123456789'' ! n] else decimal (n div 10) @ [''0123456789'' ! (n mod 10)])"

text \<open>
  The \<open>ConfirmationStatus\<close> filter of the loader (only the truthiness of the two flags is
  read) and the loader's configuration.
\<close>

record WarpGatewayInteractionsLoader =
  baseUrl :: string
  filter_confirmed :: bool
  filter_notCorrupted :: bool
  source :: "string option"

text \<open>
  The query of one page request: the entries of the object given to \<open>URLSearchParams\<close>, in
  order. A bound is sent only when it is a non-empty string; the later
  \<open>confirmationStatus\<close> spread overwrites the value of the earlier one.
\<close>

definition searchParams ::
  "WarpGatewayInteractionsLoader \<Rightarrow> string \<Rightarrow> string option \<Rightarrow> string option \<Rightarrow> nat
     \<Rightarrow> (string \<times> string) list" where
  "searchParams loader contractId fromSortKey toSortKey page =
     [(''contractId'', contractId)]
     @ (case fromSortKey of Some f \<Rightarrow> (if f \<noteq> [] then [(''from'', f)] else []) | None \<Rightarrow> [])
     @ (case toSortKey of Some t \<Rightarrow> (if t \<noteq> [] then [(''to'', t)] else []) | None \<Rightarrow> [])
     @ [(''page'', decimal page), (''minimize'', ''true'')]
     @ (if filter_notCorrupted loader then [(''confirmationStatus'', ''not_corrupted'')]
        else if filter_confirmed loader then [(''confirmationStatus'', ''confirmed'')] else [])
     @ (case source loader of Some src \<Rightarrow> (if src \<noteq> [] then [(''source'', src)] else []) | None \<Rightarrow> [])"

text \<open>
  What the gateway answers to one request. \<open>Response status body\<close> is an HTTP response
  whose JSON body has \<open>paging.pages\<close> and the list of \<open>{interaction, status}\<close> entries;
  \<open>res.ok\<close> holds for a status from 200 to 299. \<open>FetchRejected status\<close> is a request whose
  promise rejected, with the \<open>status\<close> property of the value it rejected with: \<open>None\<close> when
  that value has none (its \<open>error.status\<close> is \<open>undefined\<close>), as for a request that produced
  no response.
\<close>

record gateway_body =
  paging_pages :: int
  interactions :: "(GQLNodeInterface \<times> string) list"

datatype fetch_result = Response nat gateway_body | FetchRejected "nat option"

definition res_ok :: "nat \<Rightarrow> bool" where
  "res_ok status = (200 \<le> status \<and> status \<le> 299)"

text \<open>\<open>`${error.status}`\<close> for the value a request rejected with.\<close>

definition status_text :: "nat option \<Rightarrow> string" where
  "status_text status = (case status of None \<Rightarrow> ''undefined'' | Some n \<Rightarrow> decimal n)"

definition gateway_error :: "string \<Rightarrow> js_thrown" where
  "gateway_error status =
     ErrorObject ''Error''
       (''Unable to retrieve transactions. Warp gateway responded with status '' @ status @ ''.'')
       None None"

text \<open>\<open>{...interaction.interaction, confirmationStatus: interaction.status}\<close>\<close>

definition tagged :: "GQLNodeInterface \<times> string \<Rightarrow> GQLNodeInterface" where
  "tagged e = (fst e)\<lparr>confirmationStatus := Some (snd e)\<rparr>"

text \<open>
  The \<open>do ... while (page < totalPages)\<close> loop. The gateway decides how many pages there
  are and may report more with every answer, so the loop runs on fuel: \<open>None\<close> is a run that
  has not finished within the fuel. The stack text of the error thrown is left out.
\<close>

fun load_loop ::
  "nat \<Rightarrow> ((string \<times> string) list \<Rightarrow> fetch_result) \<Rightarrow> WarpGatewayInteractionsLoader \<Rightarrow> string
     \<Rightarrow> string option \<Rightarrow> string option \<Rightarrow> nat \<Rightarrow> GQLNodeInterface list
     \<Rightarrow> (js_thrown + GQLNodeInterface list) option" where
  "load_loop 0 fetch loader contractId fromSortKey toSortKey page acc = None"
| "load_loop (Suc fuel) fetch loader contractId fromSortKey toSortKey page acc =
     (case fetch (searchParams loader contractId fromSortKey toSortKey (page + 1)) of
        FetchRejected status \<Rightarrow> Some (Inl (gateway_error (status_text status)))
      | Response status response \<Rightarrow>
          if \<not> res_ok status then Some (Inl (gateway_error (decimal status)))
          else
            let totalPages = paging_pages response;
                acc' = acc @ map tagged (interactions response)
            in if int (page + 1) < totalPages
               then load_loop fuel fetch loader contractId fromSortKey toSortKey (page + 1) acc'
               else Some (Inr acc'))"

definition WarpGatewayInteractionsLoader_load ::
  "nat \<Rightarrow> ((string \<times> string) list \<Rightarrow> fetch_result) \<Rightarrow> WarpGatewayInteractionsLoader \<Rightarrow> string
     \<Rightarrow> string option \<Rightarrow> string option \<Rightarrow> (js_thrown + GQLNodeInterface list) option" where
  "WarpGatewayInteractionsLoader_load fuel fetch loader contractId fromSortKey toSortKey =
     load_loop fuel fetch loader contractId fromSortKey toSortKey 0 []"

text \<open>Readings of one answer of the gateway, used to state what a run has fetched.\<close>

definition page_ok :: "fetch_result \<Rightarrow> bool" where
  "page_ok r = (case r of Response status body \<Rightarrow> res_ok status | FetchRejected status \<Rightarrow> False)"

definition page_total :: "fetch_result \<Rightarrow> int" where
  "page_total r = (case r of Response status body \<Rightarrow> paging_pages body | FetchRejected status \<Rightarrow> 0)"

definition page_interactions :: "fetch_result \<Rightarrow> GQLNodeInterface list" where
  "page_interactions r =
     (case r of
        Response status body \<Rightarrow> map tagged (interactions body)
      | FetchRejected status \<Rightarrow> [])"

definition page_error :: "fetch_result \<Rightarrow> js_thrown" where
  "page_error r =
     (case r of Response status body \<Rightarrow> gateway_error (decimal status)
              | FetchRejected status \<Rightarrow> gateway_error (status_text status))"

section \<open>The handler boundary\<close>

text \<open>
  A JSON value: the parsed \<open>Input\<close> tag and the \<open>result\<close> of a handler. A value is falsy
  when it is \<open>null\<close>, \<open>false\<close>, zero or the empty string.
\<close>

datatype json =
  JNull | JBool bool | JNum int | JStr string | JArr "json list" | JObj "(string \<times> json) list"

definition falsy :: "json \<Rightarrow> bool" where
  "falsy j = (j = JNull \<or> j = JBool False \<or> j = JNum 0 \<or> j = JStr [])"

datatype InteractionType = View | Write

record ContractInteraction =
  input :: json
  caller :: string
  interactionType :: InteractionType

record InteractionData =
  interaction :: ContractInteraction
  interactionTx :: GQLNodeInterface

datatype InteractionResultType = Type_ok | Type_error | Type_exception

text \<open>
  \<open>InteractionResult\<close>: \<open>result\<close> is \<open>None\<close> for \<open>null\<close> or \<open>undefined\<close>, \<open>errorMessage\<close> is
  \<open>None\<close> when the field is absent. The optional \<open>gasUsed\<close> and \<open>event\<close>, which only feed the
  call record and the event target, are left out.
\<close>

record 's InteractionResult =
  res_type :: InteractionResultType
  res_result :: "json option"
  res_state :: 's
  res_errorMessage :: "string option"

text \<open>
  What the contract function returns (\<open>state\<close> and \<open>result\<close>, each possibly \<open>undefined\<close>),
  and what \<open>await Promise.race([timeoutPromise, contractFunction(stateCopy, interaction)])\<close>
  settles to: a returned value (\<open>None\<close> for a falsy one) or a rejection. The rejection of the
  timeout promise is \<open>Rejected ''timeout''\<close>.
\<close>

datatype 's HandlerResult = HandlerResult (hr_state: "'s option") (hr_result: "json option")

datatype 's settled = Fulfilled "'s HandlerResult option" | RejectedWith js_thrown

datatype kv_op = KvOpen | KvCommit | KvRollback | KvClose

text \<open>\<open>`${(err && err.stack) || (err && err.message) || err}`\<close>\<close>

definition exception_message :: "js_thrown \<Rightarrow> string" where
  "exception_message err =
     (case err of
        ErrorObject n m st sub \<Rightarrow>
          (case st of
             Some stack \<Rightarrow> if stack \<noteq> [] then stack else if m \<noteq> [] then m else n
           | None \<Rightarrow> if m \<noteq> [] then m else n)
      | Rejected s \<Rightarrow> s)"

section \<open>JsHandlerApi.handle\<close>

text \<open>
  \<open>contractFunction\<close> gives the settled outcome of the race for a state copy and an
  interaction. \<open>JSON_stringify\<close> and \<open>stackOf\<close> (the stack text the engine attaches to an
  \<open>Error\<close> created with a message) are the engine's. The state is of any type; \<open>falsyState\<close>
  tells which of its values are falsy (\<open>null\<close>, \<open>false\<close>, zero, the empty string), for
  \<open>handlerResult.state || currentResult.state\<close>: a returned state that is defined and falsy
  passes the test \<open>handlerResult.state !== undefined\<close> and is then replaced by the previous
  state. The result comes with the operations made on the key-value storage \<open>swGlobal.kv\<close>,
  in order.
\<close>

definition JsHandlerApi_handle ::
  "('s \<Rightarrow> bool) \<Rightarrow> ('s \<Rightarrow> ContractInteraction \<Rightarrow> 's settled)
     \<Rightarrow> ('s HandlerResult option \<Rightarrow> string)
     \<Rightarrow> (string \<Rightarrow> string option) \<Rightarrow> 's EvalStateResult \<Rightarrow> InteractionData
     \<Rightarrow> 's InteractionResult \<times> kv_op list" where
  "JsHandlerApi_handle falsyState contractFunction JSON_stringify stackOf currentResult
       interactionData =
     (let stateCopy = state currentResult in
      case contractFunction stateCopy (interaction interactionData) of
        Fulfilled handlerResult \<Rightarrow>
          (case handlerResult of
             Some (HandlerResult st res) \<Rightarrow>
               if st \<noteq> None \<or> res \<noteq> None then
                 (\<lparr>res_type = Type_ok, res_result = res,
                   res_state =
                     (case st of
                        Some s \<Rightarrow> if falsyState s then state currentResult else s
                      | None \<Rightarrow> state currentResult),
                   res_errorMessage = None\<rparr>,
                  [KvOpen, KvCommit, KvClose])
               else
                 (let msg = ''Unexpected result from contract: '' @ JSON_stringify handlerResult in
                  (\<lparr>res_type = Type_exception, res_result = None, res_state = state currentResult,
                    res_errorMessage =
                      Some (exception_message (ErrorObject ''Error'' msg (stackOf msg) None))\<rparr>,
                   [KvOpen, KvRollback, KvClose]))
           | None \<Rightarrow>
               (let msg = ''Unexpected result from contract: '' @ JSON_stringify handlerResult in
                (\<lparr>res_type = Type_exception, res_result = None, res_state = state currentResult,
                  res_errorMessage =
                    Some (exception_message (ErrorObject ''Error'' msg (stackOf msg) None))\<rparr>,
                 [KvOpen, KvRollback, KvClose])))
      | RejectedWith err \<Rightarrow>
          (case err of
             ErrorObject n m st sub \<Rightarrow>
               if n = ''ContractError'' then
                 (\<lparr>res_type = Type_error, res_result = None, res_state = state currentResult,
                   res_errorMessage = Some m\<rparr>,
                  [KvOpen, KvRollback, KvClose])
               else
                 (\<lparr>res_type = Type_exception, res_result = None, res_state = state currentResult,
                   res_errorMessage = Some (exception_message err)\<rparr>,
                  [KvOpen, KvRollback, KvClose])
           | Rejected s \<Rightarrow>
               (\<lparr>res_type = Type_exception, res_result = None, res_state = state currentResult,
                 res_errorMessage = Some (exception_message err)\<rparr>,
                [KvOpen, KvRollback, KvClose])))"

section \<open>DefaultStateEvaluator.doReadState\<close>

text \<open>
  Modelled from the spec: the enum \<open>KnownErrors\<close> is imported from a module that is not
  among the sources. Its member \<open>ContractError\<close> is the error name \<open>ContractError\<close> of the
  failure table, the name that \<open>JsHandlerApi.handle\<close> matches.
\<close>

definition KnownErrors_ContractError :: string where
  "KnownErrors_ContractError = ''ContractError''"

text \<open>
  Modelled from the spec: the member \<open>NonWhitelistedSourceError\<close> of \<open>KnownErrors\<close> is the
  error name \<open>NonWhitelistedSourceError\<close> of the failure table.
\<close>

definition KnownErrors_NonWhitelistedSourceError :: string where
  "KnownErrors_NonWhitelistedSourceError = ''NonWhitelistedSourceError''"

text \<open>
  Modelled from the spec: the member \<open>AbortError\<close> of \<open>KnownErrors\<close> is the error name
  \<open>AbortError\<close> of the failure table.
\<close>

definition KnownErrors_AbortError :: string where
  "KnownErrors_AbortError = ''AbortError''"

text \<open>
  The part of \<open>ExecutionContext\<close> the evaluators read. \<open>handler\<close> is \<open>handler.handle\<close> as a
  function of the current result and the interaction data; it may reject. \<open>contract_txId\<close>
  and \<open>contract_isRoot\<close> are \<open>contract.txId()\<close> and \<open>contract.isRoot()\<close>. Seeding the handler
  with \<open>initState\<close> is not modelled (\<open>JsHandlerApi.initState\<close> does nothing).
\<close>

record 's ExecutionContext =
  contractDefinition_txId :: string
  contractDefinition_initState :: 's
  sortedInteractions :: "GQLNodeInterface list"
  cachedState :: "'s EvalStateResult SortKeyCacheResult option"
  requestedSortKey :: "string option"
  ignoreExceptions :: bool
  internalWrites :: bool
  cacheEveryNInteractions :: int
  handler :: "'s EvalStateResult \<Rightarrow> InteractionData \<Rightarrow> js_thrown + 's InteractionResult"
  contract_txId :: string
  contract_isRoot :: bool

text \<open>
  The collaborators of the fold that are not among the sources, as parameters: the abort
  signal read at iteration \<open>i\<close>, the optional plugins, the \<open>TagsParser\<close> queries,
  \<open>JSON.parse\<close> (\<open>None\<close> when it throws) and \<open>JSON.stringify\<close>, the nested
  \<open>writingContract.readState\<close> (given the writing contract, the interaction and the state
  staged for this contract; it may throw and may yield \<open>null\<close>), the read of the staged entry
  \<open>contract.interactionState().get\<close> that follows it, and the execution-context modifiers.
\<close>

record 's evaluator_env =
  aborted :: "nat \<Rightarrow> bool"
  vrfPlugin :: "(string \<Rightarrow> string \<Rightarrow> bool) option"
  evmSignatureVerificationPlugin :: "(GQLNodeInterface \<Rightarrow> js_thrown + bool) option"
  isEvmSigned :: "GQLNodeInterface \<Rightarrow> bool"
  isInteractWrite :: "GQLNodeInterface \<Rightarrow> string \<Rightarrow> bool"
  getContractTag :: "GQLNodeInterface \<Rightarrow> string"
  getInputTag :: "GQLNodeInterface \<Rightarrow> string \<Rightarrow> string option"
  JSON_parse :: "string \<Rightarrow> json option"
  stringify_interaction :: "ContractInteraction \<Rightarrow> string"
  writingContract_readState ::
    "string \<Rightarrow> GQLNodeInterface \<Rightarrow> 's EvalStateResult
       \<Rightarrow> js_thrown + 's EvalStateResult SortKeyCacheResult option"
  interactionState_get ::
    "string \<Rightarrow> GQLNodeInterface \<Rightarrow> 's EvalStateResult \<Rightarrow> 's EvalStateResult option"
  executionContextModifiers ::
    "('s \<Rightarrow> 's ExecutionContext \<Rightarrow> js_thrown + 's ExecutionContext) list"

text \<open>The calls made on the interaction state (the scratchpad), recorded in order.\<close>

datatype 's interactionState_op =
    SetInitial string "'s EvalStateResult" string
  | Update string "'s EvalStateResult" "string option"
  | Commit GQLNodeInterface bool
  | Rollback GQLNodeInterface bool

text \<open>
  The variables of the loop. \<open>current\<close> holds \<open>currentState\<close>, \<open>validity\<close> and
  \<open>errorMessages\<close>. \<open>lastConfirmedTxState\<close> keeps the transaction and the state it was
  recorded with: its \<open>EvalStateResult\<close> shares the \<open>validity\<close> and \<open>errorMessages\<close> objects
  that the loop goes on writing, so these are read from \<open>current\<close> when it is used.
  The call-stack record, the progress plugin and the event target only observe the fold
  and are left out.
\<close>

record 's fold_state =
  current :: "'s EvalStateResult"
  currentSortKey :: "string option"
  lastConfirmedTxState :: "(GQLNodeInterface \<times> 's) option"
  shouldBreakAfterEvolve :: bool
  executionContext :: "'s ExecutionContext"
  interactionStateLog :: "'s interactionState_op list"

definition canBeCached :: "GQLNodeInterface \<Rightarrow> bool" where
  "canBeCached tx =
     (if confirmationStatus tx = None then True else confirmationStatus tx = Some ''confirmed'')"

definition lastConfirmed :: "'s fold_state \<Rightarrow> (GQLNodeInterface \<times> 's EvalStateResult) option" where
  "lastConfirmed st =
     (case lastConfirmedTxState st of
        None \<Rightarrow> None
      | Some (tx, s) \<Rightarrow>
          Some (tx, \<lparr>state = s, validity = validity (current st),
                     errorMessages = errorMessages (current st)\<rparr>))"

definition truthy_errval :: "errval option \<Rightarrow> bool" where
  "truthy_errval v = (case v of None \<Rightarrow> False | Some (Msg s) \<Rightarrow> s \<noteq> [] | Some (ErrVal e) \<Rightarrow> True)"

text \<open>The errors of the nested read for which the internal write is skipped.\<close>

definition skipInternalWrite :: "js_thrown \<Rightarrow> bool" where
  "skipInternalWrite e =
     (case e of
        ErrorObject n m st sub \<Rightarrow>
          (n = KnownErrors_ContractError
             \<and> (sub = Some ''unsafeClientSkip'' \<or> sub = Some ''constructor''
                  \<or> sub = Some ''blacklistedSkip''))
          \<or> n = KnownErrors_NonWhitelistedSourceError
      | Rejected s \<Rightarrow> False)"

text \<open>
  The internal-write branch of the loop body, from the nested read of the writing
  contract to the update of \<open>lastConfirmedTxState\<close>.
\<close>

definition internalWrite ::
  "'s evaluator_env \<Rightarrow> 's ExecutionContext \<Rightarrow> GQLNodeInterface \<Rightarrow> 's fold_state
     \<Rightarrow> js_thrown + 's fold_state" where
  "internalWrite env ctx missingInteraction st =
     (let writingContractTxId = getContractTag env missingInteraction;
          cur = current st;
          i = tx_id missingInteraction;
          invalid = (\<lambda>s. s\<lparr>current := (current s)\<lparr>validity := (validity (current s))(i \<mapsto> False)\<rparr>\<rparr>)
      in
      case writingContract_readState env writingContractTxId missingInteraction cur of
        Inl e \<Rightarrow>
          if skipInternalWrite e then
            Inr (invalid
              (st\<lparr>current := cur\<lparr>errorMessages := (errorMessages cur)(i \<mapsto> ErrVal e)\<rparr>,
                  lastConfirmedTxState :=
                    (if canBeCached missingInteraction then Some (missingInteraction, state cur)
                     else lastConfirmedTxState st)\<rparr>))
          else Inl e
      | Inr writingContractState \<Rightarrow>
          (case (interactionState_get env (contract_txId ctx) missingInteraction cur,
                 writingContractState) of
             (Some newState, Some W) \<Rightarrow>
               let parentValidity = (validity (cachedValue W) i = Some True);
                   currentState = (if parentValidity then state newState else state cur);
                   validity' =
                     (if parentValidity then (validity cur)(i := validity newState i)
                      else (validity cur)(i \<mapsto> False));
                   errorMessages' =
                     (if parentValidity then
                        (if truthy_errval (errorMessages newState i)
                         then (errorMessages cur)(i := errorMessages newState i)
                         else errorMessages cur)
                      else (errorMessages cur)(i := errorMessages (cachedValue W) i))
               in Inr (st\<lparr>current :=
                           \<lparr>state = currentState, validity = validity', errorMessages = errorMessages'\<rparr>,
                         lastConfirmedTxState :=
                           (if canBeCached missingInteraction
                            then Some (missingInteraction, currentState)
                            else lastConfirmedTxState st)\<rparr>)
           | _ \<Rightarrow> Inr (invalid st)))"

text \<open>
  The branch of a direct interaction, from the call of the handler to the update of
  \<open>lastConfirmedTxState\<close>, for an \<open>Input\<close> tag already parsed.
\<close>

definition directInteraction ::
  "'s evaluator_env \<Rightarrow> 's ExecutionContext \<Rightarrow> GQLNodeInterface \<Rightarrow> json \<Rightarrow> 's fold_state
     \<Rightarrow> js_thrown + 's fold_state" where
  "directInteraction env ctx missingInteraction inp st =
     (let interaction =
            \<lparr>input = inp, caller = owner_address missingInteraction, interactionType = Write\<rparr>;
          interactionData = \<lparr>interaction = interaction, interactionTx = missingInteraction\<rparr>;
          cur = current st;
          i = tx_id missingInteraction
      in
      case handler (executionContext st) cur interactionData of
        Inl e \<Rightarrow> Inl e
      | Inr result \<Rightarrow>
          let errorMessages' =
                (if res_type result \<noteq> Type_ok
                 then (errorMessages cur)(i := map_option Msg (res_errorMessage result))
                 else errorMessages cur)
          in
          if res_type result = Type_exception \<and> ignoreExceptions ctx \<noteq> True then
            Inl (ErrorObject ''Error''
                   (''Exception while processing '' @ stringify_interaction env interaction
                      @ '':'' @ [CHR 0x0A]
                      @ (case res_errorMessage result of None \<Rightarrow> ''undefined'' | Some m \<Rightarrow> m))
                   None None)
          else
            let isValidInteraction = (res_type result = Type_ok);
                currentState = res_state result
            in Inr (st\<lparr>current :=
                        \<lparr>state = currentState,
                          validity = (validity cur)(i \<mapsto> isValidInteraction),
                          errorMessages = errorMessages'\<rparr>,
                      lastConfirmedTxState :=
                        (if canBeCached missingInteraction
                         then Some (missingInteraction, currentState)
                         else lastConfirmedTxState st)\<rparr>))"

text \<open>
  The modifiers run in order, each on the context the previous one returned; when one
  throws, the context reached so far stays assigned.
\<close>

fun applyModifiers ::
  "('s \<Rightarrow> 's ExecutionContext \<Rightarrow> js_thrown + 's ExecutionContext) list \<Rightarrow> 's
     \<Rightarrow> 's ExecutionContext \<Rightarrow> 's ExecutionContext \<times> js_thrown option" where
  "applyModifiers [] currentState ctx = (ctx, None)"
| "applyModifiers (modify # ms) currentState ctx =
     (case modify currentState ctx of
        Inl e \<Rightarrow> (ctx, Some e)
      | Inr ctx' \<Rightarrow> applyModifiers ms currentState ctx')"

definition skipAfterEvolve :: "js_thrown \<Rightarrow> bool" where
  "skipAfterEvolve e =
     (case e of
        ErrorObject n m st sub \<Rightarrow>
          (n = KnownErrors_ContractError \<and> sub = Some ''unsafeClientSkip'')
          \<or> n = KnownErrors_NonWhitelistedSourceError
      | Rejected s \<Rightarrow> False)"

text \<open>
  The end of the loop body, which \<open>continue\<close> skips: the modifiers, then the update and the
  commit or rollback of the interaction state.
\<close>

definition afterInteraction ::
  "'s evaluator_env \<Rightarrow> 's ExecutionContext \<Rightarrow> nat \<Rightarrow> GQLNodeInterface \<Rightarrow> 's fold_state
     \<Rightarrow> js_thrown + 's fold_state" where
  "afterInteraction env ctx i missingInteraction st =
     (let (ctx', err) =
            applyModifiers (executionContextModifiers env) (state (current st)) (executionContext st);
          st1 = st\<lparr>executionContext := ctx'\<rparr>;
          modified =
            (case err of
               None \<Rightarrow> Inr st1
             | Some e \<Rightarrow>
                 if skipAfterEvolve e then
                   Inr (st1\<lparr>current := (current st1)
                              \<lparr>validity := (validity (current st1))(tx_id missingInteraction \<mapsto> False),
                               errorMessages := (errorMessages (current st1))
                                 (tx_id missingInteraction \<mapsto> Msg (emessage e))\<rparr>,
                            shouldBreakAfterEvolve := True\<rparr>)
                 else Inl e)
      in
      case modified of
        Inl e \<Rightarrow> Inl e
      | Inr st2 \<Rightarrow>
          let forceStateStoreToCache =
                (cacheEveryNInteractions (executionContext st2) > 0
                 \<and> int i mod cacheEveryNInteractions (executionContext st2) = 0)
          in
          if contract_isRoot ctx then
            (case lastConfirmed st2 of
               None \<Rightarrow> Inr st2
             | Some (tx, lastState) \<Rightarrow>
                 Inr (st2\<lparr>interactionStateLog := interactionStateLog st2
                        @ [Update (contract_txId ctx) lastState (Some (sortKey tx)),
                           if validity (current st2) (tx_id missingInteraction) = Some True
                           then Commit missingInteraction forceStateStoreToCache
                           else Rollback missingInteraction forceStateStoreToCache]\<rparr>))
          else
            Inr (st2\<lparr>interactionStateLog := interactionStateLog st2
                   @ [Update (contract_txId ctx) (current st2) (currentSortKey st2)]\<rparr>))"

text \<open>\<open>parseInput\<close>: the parsed value, or \<open>null\<close> when \<open>JSON.parse\<close> throws.\<close>

definition parseInput :: "'s evaluator_env \<Rightarrow> string \<Rightarrow> json" where
  "parseInput env inputTag = (case JSON_parse env inputTag of None \<Rightarrow> JNull | Some v \<Rightarrow> v)"

text \<open>
  The VRF check fails when the interaction carries VRF data, the plugin is attached and
  its \<open>verify\<close> rejects the data for the sort key.
\<close>

definition vrfFails :: "'s evaluator_env \<Rightarrow> GQLNodeInterface \<Rightarrow> bool" where
  "vrfFails env missingInteraction =
     (case vrf missingInteraction of
        None \<Rightarrow> False
      | Some v \<Rightarrow>
          (case vrfPlugin env of
             None \<Rightarrow> False
           | Some verify \<Rightarrow> \<not> verify v (sortKey missingInteraction)))"

text \<open>
  An EVM-signed interaction is skipped (\<open>continue\<close>) when the plugin is attached and does
  not verify it, or throws.
\<close>

definition evmSkips :: "'s evaluator_env \<Rightarrow> GQLNodeInterface \<Rightarrow> bool" where
  "evmSkips env missingInteraction =
     (case evmSignatureVerificationPlugin env of
        None \<Rightarrow> False
      | Some process \<Rightarrow>
          isEvmSigned env missingInteraction
          \<and> (case process missingInteraction of Inl e \<Rightarrow> True | Inr verified \<Rightarrow> \<not> verified))"

text \<open>
  One iteration of the loop for the interaction at index \<open>i\<close>. \<open>ctx\<close> is the execution
  context the function was called with, whose fields are read once before the loop;
  \<open>executionContext st\<close> is the one the modifiers have reassigned.
\<close>

definition doReadState_step ::
  "'s evaluator_env \<Rightarrow> 's ExecutionContext \<Rightarrow> nat \<Rightarrow> GQLNodeInterface \<Rightarrow> 's fold_state
     \<Rightarrow> js_thrown + 's fold_state" where
  "doReadState_step env ctx i missingInteraction st =
     (if aborted env i then
        Inl (ErrorObject KnownErrors_AbortError ''Abort signal in DefaultStateEvaluator'' None None)
      else
        let st1 = st\<lparr>currentSortKey := Some (sortKey missingInteraction),
                     interactionStateLog := interactionStateLog st
                       @ [SetInitial (contract_txId ctx) (current st) (sortKey missingInteraction)]\<rparr>
        in
        if vrfFails env missingInteraction
        then Inl (ErrorObject ''Error'' ''Vrf verification failed.'' None None)
        else if evmSkips env missingInteraction
        then Inr st1
        else if isInteractWrite env missingInteraction (contractDefinition_txId ctx)
                \<and> internalWrites ctx
        then
          (case internalWrite env ctx missingInteraction st1 of
             Inl e \<Rightarrow> Inl e
           | Inr st2 \<Rightarrow> afterInteraction env ctx i missingInteraction st2)
        else
          (case getInputTag env missingInteraction
                  (contractDefinition_txId (executionContext st1)) of
             None \<Rightarrow> Inr st1
           | Some inputTag \<Rightarrow>
               let inp = parseInput env inputTag in
               if falsy inp then Inr st1
               else
                 (case directInteraction env ctx missingInteraction inp st1 of
                    Inl e \<Rightarrow> Inl e
                  | Inr st2 \<Rightarrow> afterInteraction env ctx i missingInteraction st2)))"

fun doReadState_loop ::
  "'s evaluator_env \<Rightarrow> 's ExecutionContext \<Rightarrow> nat \<Rightarrow> GQLNodeInterface list \<Rightarrow> 's fold_state
     \<Rightarrow> js_thrown + 's fold_state" where
  "doReadState_loop env ctx i [] st = Inr st"
| "doReadState_loop env ctx i (missingInteraction # rest) st =
     (if shouldBreakAfterEvolve st then Inr st
      else
        case doReadState_step env ctx i missingInteraction st of
          Inl e \<Rightarrow> Inl e
        | Inr st' \<Rightarrow> doReadState_loop env ctx (Suc i) rest st')"

text \<open>
  \<open>doReadState\<close> with the hooks of \<open>CacheableStateEvaluator\<close>: after the loop
  \<open>onStateEvaluated\<close> puts the last confirmed state in the cache. The result is the
  \<open>SortKeyCacheResult\<close>, the cache and the calls made on the interaction state.
\<close>

definition doReadState ::
  "'s evaluator_env \<Rightarrow> GQLNodeInterface list \<Rightarrow> 's EvalStateResult \<Rightarrow> 's ExecutionContext
     \<Rightarrow> 's EvalStateResult LevelDb
     \<Rightarrow> js_thrown + ('s EvalStateResult SortKeyCacheResult \<times> 's EvalStateResult LevelDb
                       \<times> 's interactionState_op list)" where
  "doReadState env missingInteractions baseState ctx cache =
     (case doReadState_loop env ctx 0 missingInteractions
             \<lparr>current = baseState, currentSortKey = None, lastConfirmedTxState = None,
               shouldBreakAfterEvolve = False, executionContext = ctx, interactionStateLog = []\<rparr> of
        Inl e \<Rightarrow> Inl e
      | Inr st \<Rightarrow>
          let evalStateResult = current st;
              cache' =
                (case lastConfirmed st of
                   None \<Rightarrow> cache
                 | Some (tx, lastState) \<Rightarrow>
                     putInCache (contractDefinition_txId (executionContext st)) tx lastState cache)
          in Inr (SortKeyCacheResult (currentSortKey st) evalStateResult, cache',
                  interactionStateLog st))"

section \<open>CacheableStateEvaluator.eval\<close>

record CurrentTx =
  entry_interactionTxId :: string
  entry_contractTxId :: string

text \<open>\<open>Array.prototype.findIndex\<close>; \<open>None\<close> is \<open>-1\<close>.\<close>

fun findIndex :: "('a \<Rightarrow> bool) \<Rightarrow> 'a list \<Rightarrow> nat option" where
  "findIndex P [] = None"
| "findIndex P (x # xs) = (if P x then Some 0 else map_option Suc (findIndex P xs))"

text \<open>
  The loop over the caller's \<open>currentTx\<close> stack: \<open>splice(index)\<close> cuts the list of missing
  interactions at the first interaction with the id of the entry.
\<close>

fun infLoopFix :: "string \<Rightarrow> CurrentTx list \<Rightarrow> GQLNodeInterface list \<Rightarrow> GQLNodeInterface list" where
  "infLoopFix txId [] missingInteractions = missingInteractions"
| "infLoopFix txId (entry # rest) missingInteractions =
     (if entry_contractTxId entry = txId then
        (case findIndex (\<lambda>tx. tx_id tx = entry_interactionTxId entry) missingInteractions of
           None \<Rightarrow> infLoopFix txId rest missingInteractions
         | Some index \<Rightarrow> infLoopFix txId rest (take index missingInteractions))
      else infLoopFix txId rest missingInteractions)"

text \<open>
  \<open>eval\<close>. \<open>currentTx\<close> may be \<open>undefined\<close> (\<open>None\<close>). The list of missing interactions is
  the array \<open>executionContext.sortedInteractions\<close> itself, so cutting it cuts the context's
  list too. \<open>genesisSortKey\<close>, imported from the sorter, is a parameter. The stack is
  handed to \<open>doReadState\<close> as a fourth argument, which that function does not take.
\<close>

text \<open>\<open>cachedState && cachedState.sortKey == executionContext.requestedSortKey\<close>\<close>

definition exactCacheHit :: "'s ExecutionContext \<Rightarrow> 's EvalStateResult SortKeyCacheResult option" where
  "exactCacheHit ctx =
     (case cachedState ctx of
        None \<Rightarrow> None
      | Some cached \<Rightarrow> if resultSortKey cached = requestedSortKey ctx then Some cached else None)"

definition CacheableStateEvaluator_eval ::
  "'s evaluator_env \<Rightarrow> string \<Rightarrow> 's ExecutionContext \<Rightarrow> CurrentTx list option
     \<Rightarrow> 's EvalStateResult LevelDb
     \<Rightarrow> js_thrown + ('s EvalStateResult SortKeyCacheResult \<times> 's EvalStateResult LevelDb
                       \<times> 's interactionState_op list)" where
  "CacheableStateEvaluator_eval env genesisSortKey ctx currentTx cache =
     (case exactCacheHit ctx of
        Some cached \<Rightarrow> Inr (cached, cache, [])
      | None \<Rightarrow>
        let txId = contractDefinition_txId ctx in
        if txId = [] then
          Inl (ErrorObject ''Error'' ''Contract tx id not set in the execution context'' None None)
        else
          let missingInteractions =
                infLoopFix txId (case currentTx of None \<Rightarrow> [] | Some entries \<Rightarrow> entries)
                  (sortedInteractions ctx);
              ctx' = ctx\<lparr>sortedInteractions := missingInteractions\<rparr>
          in
          if length missingInteractions = 0 then
            (case cachedState ctx of
               Some cached \<Rightarrow> Inr (cached, cache, [])
             | None \<Rightarrow>
                 let stateToCache =
                       \<lparr>state = contractDefinition_initState ctx, validity = Map.empty,
                         errorMessages = Map.empty\<rparr>
                 in Inr (SortKeyCacheResult (Some genesisSortKey) stateToCache,
                         LevelDbCache_put (txId, genesisSortKey) stateToCache cache, []))
          else
            let baseState =
                  (case cachedState ctx of
                     None \<Rightarrow>
                       \<lparr>state = contractDefinition_initState ctx, validity = Map.empty,
                         errorMessages = Map.empty\<rparr>
                   | Some cached \<Rightarrow>
                       \<lparr>state = state (cachedValue cached), validity = validity (cachedValue cached),
                         errorMessages = errorMessages (cachedValue cached)\<rparr>)
            in doReadState env missingInteractions baseState ctx' cache)"

section \<open>Re-entrant evaluation\<close>


text \<open>
  Modelled from the spec: the interactions that a \<open>readState\<close> of a contract at a sort key
  evaluates. The contract facade and the loaders behind it are not among the sources; by
  the spec the evaluation runs over the interactions of the contract up to the requested
  sort key, in ascending order. A network gives every contract its sorted interactions.
\<close>

type_synonym network = "(string \<times> GQLNodeInterface list) list"

definition interactions_upto :: "network \<Rightarrow> string \<Rightarrow> string \<Rightarrow> GQLNodeInterface list" where
  "interactions_upto net c sk =
     filter (\<lambda>tx. sortKey tx \<le> sk) (case map_of net c of None \<Rightarrow> [] | Some txs \<Rightarrow> txs)"


text \<open>
  Modelled from the spec: the same evaluation with the cut of the list left out, to compare
  with (by the spec, without the guard the fold would loop).
\<close>

fun readState_unguarded ::
  "nat \<Rightarrow> network \<Rightarrow> (string \<Rightarrow> GQLNodeInterface \<Rightarrow> string list) \<Rightarrow> string \<Rightarrow> string
     \<Rightarrow> (string \<times> string) list option" where
  "readState_unguarded 0 net reads c sk = None"
| "readState_unguarded (Suc fuel) net reads c sk =
     map_option concat (those (map
       (\<lambda>i. map_option (\<lambda>nested. (c, tx_id i) # concat nested)
              (those (map
                (\<lambda>child. readState_unguarded fuel net reads child (sortKey i))
                (reads c i))))
       (interactions_upto net c sk)))"



section \<open>Example data\<close>

text \<open>
  Concrete transactions, an environment and an execution context at which the theorems
  below are instantiated. The example handler is a counter: every interaction whose input
  is an object adds one to the state, a number, of which zero is the falsy value; any other
  input is rejected with a \<open>ContractError\<close>.
  The example environment has no plugins and no modifiers, reads the tags \<open>Input\<close>,
  \<open>Contract\<close> and \<open>Interact-Write\<close>, and parses the texts \<open>{}\<close> and \<open>null\<close>.
\<close>

definition example_tx :: "string \<Rightarrow> string \<Rightarrow> (string \<times> string) list \<Rightarrow> GQLNodeInterface" where
  "example_tx i k ts =
     \<lparr>tx_id = i, sortKey = k, dry = None, confirmationStatus = None, owner_address = ''owner'',
      vrf = None, tags = ts\<rparr>"

definition example_env :: "nat evaluator_env" where
  "example_env =
     \<lparr>aborted = (\<lambda>i. False),
      vrfPlugin = None,
      evmSignatureVerificationPlugin = None,
      isEvmSigned = (\<lambda>tx. False),
      isInteractWrite = (\<lambda>tx c. map_of (tags tx) ''Interact-Write'' = Some c),
      getContractTag = (\<lambda>tx. case map_of (tags tx) ''Contract'' of Some c \<Rightarrow> c | None \<Rightarrow> []),
      getInputTag = (\<lambda>tx c. map_of (tags tx) ''Input''),
      JSON_parse = (\<lambda>s. if s = ''{}'' then Some (JObj []) else if s = ''null'' then Some JNull else None),
      stringify_interaction = (\<lambda>i. ''{}''),
      writingContract_readState = (\<lambda>c tx cur. Inr None),
      interactionState_get = (\<lambda>c tx cur. None),
      executionContextModifiers = []\<rparr>"

definition example_handler ::
  "nat EvalStateResult \<Rightarrow> InteractionData \<Rightarrow> js_thrown + nat InteractionResult" where
  "example_handler cur d =
     Inr (fst (JsHandlerApi_handle (\<lambda>s. s = 0)
       (\<lambda>s i. case input i of
                 JObj members \<Rightarrow> Fulfilled (Some (HandlerResult (Some (s + 1)) None))
               | _ \<Rightarrow> RejectedWith (ErrorObject ''ContractError'' ''bad input'' None None))
       (\<lambda>r. ''undefined'') (\<lambda>m. None) cur d))"

definition example_ctx :: "GQLNodeInterface list \<Rightarrow> nat ExecutionContext" where
  "example_ctx txs =
     \<lparr>contractDefinition_txId = ''A'',
      contractDefinition_initState = 1,
      sortedInteractions = txs,
      cachedState = None,
      requestedSortKey = None,
      ignoreExceptions = True,
      internalWrites = False,
      cacheEveryNInteractions = - 1,
      handler = example_handler,
      contract_txId = ''A'',
      contract_isRoot = True\<rparr>"

definition example_state :: "nat ExecutionContext \<Rightarrow> nat fold_state" where
  "example_state ctx =
     \<lparr>current = \<lparr>state = 1, validity = Map.empty, errorMessages = Map.empty\<rparr>,
      currentSortKey = None,
      lastConfirmedTxState = None,
      shouldBreakAfterEvolve = False,
      executionContext = ctx,
      interactionStateLog = []\<rparr>"

text \<open>
  A write-back cycle: the contracts \<open>A\<close> and \<open>B\<close> have one interaction each, at the same
  sort key; folding the interaction of \<open>A\<close> reads \<open>B\<close>, and folding the one of \<open>B\<close> reads \<open>A\<close>.
\<close>

definition cycle_network :: network where
  "cycle_network = [(''A'', [example_tx ''t1'' ''k1'' []]), (''B'', [example_tx ''u1'' ''k1'' []])]"

definition cycle_reads :: "string \<Rightarrow> GQLNodeInterface \<Rightarrow> string list" where
  "cycle_reads c i = (if c = ''A'' then [''B''] else [''A''])"

section \<open>Properties of the cache\<close>

lemma map_of_LevelDbCache_put:
  "map_of (LevelDbCache_put k v db) = (map_of db)(k \<mapsto> v)"
  by (simp add: LevelDbCache_put_def update_conv')

lemma keys_LevelDbCache_put:
  "fst ` set (LevelDbCache_put k v db) = insert k (fst ` set db)"
  by (simp add: LevelDbCache_put_def dom_update)

lemma distinct_LevelDbCache_put:
  "distinct (map fst db) \<Longrightarrow> distinct (map fst (LevelDbCache_put k v db))"
  by (simp add: LevelDbCache_put_def distinct_update)

lemma putInCache_keys:
  "k \<in> fst ` set (putInCache c i st cache) \<Longrightarrow>
     k \<in> fst ` set cache \<or>
     (k = (c, sortKey i) \<and> dry i \<noteq> Some True
        \<and> (confirmationStatus i = None \<or> confirmationStatus i = Some ''confirmed''))"
  by (auto simp: putInCache_def keys_LevelDbCache_put Let_def split: if_splits)

lemma putInCache_all_keys:
  "k \<in> fst ` set (putInCache_all ws cache) \<Longrightarrow>
     k \<in> fst ` set cache \<or>
     (\<exists>(c, i, st) \<in> set ws. k = (c, sortKey i) \<and> dry i \<noteq> Some True
        \<and> (confirmationStatus i = None \<or> confirmationStatus i = Some ''confirmed''))"
proof (induction ws arbitrary: cache)
  case Nil
  then show ?case by simp
next
  case (Cons w ws)
  obtain c i st where w: "w = (c, i, st)" by (cases w)
  from Cons.prems have "k \<in> fst ` set (putInCache_all ws (putInCache c i st cache))"
    by (simp add: w)
  from Cons.IH [OF this] show ?case
  proof
    assume "k \<in> fst ` set (putInCache c i st cache)"
    from putInCache_keys [OF this] show ?thesis by (auto simp: w)
  next
    assume "\<exists>(c, i, st) \<in> set ws. k = (c, sortKey i) \<and> dry i \<noteq> Some True
        \<and> (confirmationStatus i = None \<or> confirmationStatus i = Some ''confirmed'')"
    then show ?thesis by auto
  qed
qed

text \<open>
  Claim C1. A cache write for interaction \<open>i\<close> through \<open>putInCache\<close> stores the entry
  \<open>(C, i.sortKey) \<mapsto> state\<close> when \<open>i.dry\<close> is falsy and \<open>i.confirmationStatus\<close> is
  \<open>undefined\<close> or \<open>confirmed\<close>, and leaves the cache unchanged otherwise; so after any
  sequence of such writes every key of the cache that was not there before is the sort key
  of an interaction that is neither dry nor unconfirmed.
\<close>

theorem putInCache_cacheability_gate:
  "(dry i \<noteq> Some True \<and> (confirmationStatus i = None \<or> confirmationStatus i = Some ''confirmed'')
      \<longrightarrow> map_of (putInCache c i st cache)
            = (map_of cache)((c, sortKey i) \<mapsto>
                \<lparr>state = state st, validity = validity st, errorMessages = errorMessages st\<rparr>))
   \<and> (\<not> (dry i \<noteq> Some True \<and> (confirmationStatus i = None \<or> confirmationStatus i = Some ''confirmed''))
      \<longrightarrow> putInCache c i st cache = cache)
   \<and> (\<forall>k \<in> fst ` set (putInCache_all ws cache).
        k \<in> fst ` set cache \<or>
        (\<exists>(c', i', st') \<in> set ws. k = (c', sortKey i') \<and> dry i' \<noteq> Some True
           \<and> (confirmationStatus i' = None \<or> confirmationStatus i' = Some ''confirmed'')))"
proof (intro conjI impI ballI)
  assume "dry i \<noteq> Some True \<and> (confirmationStatus i = None \<or> confirmationStatus i = Some ''confirmed'')"
  then show "map_of (putInCache c i st cache)
            = (map_of cache)((c, sortKey i) \<mapsto>
                \<lparr>state = state st, validity = validity st, errorMessages = errorMessages st\<rparr>)"
    by (auto simp: putInCache_def map_of_LevelDbCache_put)
next
  assume "\<not> (dry i \<noteq> Some True \<and> (confirmationStatus i = None \<or> confirmationStatus i = Some ''confirmed''))"
  then show "putInCache c i st cache = cache"
    by (auto simp: putInCache_def)
next
  fix k assume "k \<in> fst ` set (putInCache_all ws cache)"
  then show "k \<in> fst ` set cache \<or>
        (\<exists>(c', i', st') \<in> set ws. k = (c', sortKey i') \<and> dry i' \<noteq> Some True
           \<and> (confirmationStatus i' = None \<or> confirmationStatus i' = Some ''confirmed''))"
    by (rule putInCache_all_keys)
qed

theorem putInCache_cacheability_gate_witness:
  "map_of (putInCache ''C''
      \<lparr>tx_id = ''t1'', sortKey = ''k1'', dry = Some False, confirmationStatus = Some ''confirmed'',
        owner_address = ''o'', vrf = None, tags = []\<rparr>
      \<lparr>state = (1::nat), validity = Map.empty, errorMessages = Map.empty\<rparr> []) (''C'', ''k1'')
     = Some \<lparr>state = 1, validity = Map.empty, errorMessages = Map.empty\<rparr>
   \<and> putInCache ''C''
      \<lparr>tx_id = ''t2'', sortKey = ''k2'', dry = Some True, confirmationStatus = None,
        owner_address = ''o'', vrf = None, tags = []\<rparr>
      \<lparr>state = (1::nat), validity = Map.empty, errorMessages = Map.empty\<rparr> [] = []
   \<and> fst ` set (putInCache_all
      [(''C'', \<lparr>tx_id = ''t1'', sortKey = ''k1'', dry = Some False, confirmationStatus = Some ''confirmed'',
          owner_address = ''o'', vrf = None, tags = []\<rparr>,
          \<lparr>state = (1::nat), validity = Map.empty, errorMessages = Map.empty\<rparr>),
       (''C'', \<lparr>tx_id = ''t3'', sortKey = ''k3'', dry = None, confirmationStatus = Some ''forked'',
          owner_address = ''o'', vrf = None, tags = []\<rparr>,
          \<lparr>state = (2::nat), validity = Map.empty, errorMessages = Map.empty\<rparr>)] [])
     = {(''C'', ''k1'')}"
proof -
  let ?i1 = "\<lparr>tx_id = ''t1'', sortKey = ''k1'', dry = Some False, confirmationStatus = Some ''confirmed'',
        owner_address = ''o'', vrf = None, tags = []\<rparr>"
  let ?i2 = "\<lparr>tx_id = ''t2'', sortKey = ''k2'', dry = Some True, confirmationStatus = None,
        owner_address = ''o'', vrf = None, tags = []\<rparr>"
  let ?st = "\<lparr>state = (1::nat), validity = Map.empty, errorMessages = Map.empty\<rparr>"
  have a: "map_of (putInCache ''C'' ?i1 ?st []) (''C'', ''k1'') = Some ?st"
    using putInCache_cacheability_gate [of ?i1 "''C''" ?st "[]" "[]"] by simp
  have b: "putInCache ''C'' ?i2 ?st [] = []"
    using putInCache_cacheability_gate [of ?i2 "''C''" ?st "[]" "[]"] by simp
  have c: "fst ` set (putInCache_all
      [(''C'', ?i1, ?st),
       (''C'', \<lparr>tx_id = ''t3'', sortKey = ''k3'', dry = None, confirmationStatus = Some ''forked'',
          owner_address = ''o'', vrf = None, tags = []\<rparr>,
          \<lparr>state = (2::nat), validity = Map.empty, errorMessages = Map.empty\<rparr>)] [])
     = {(''C'', ''k1'')}"
    by (simp add: putInCache_def LevelDbCache_put_def)
  from a b c show ?thesis by simp
qed

section \<open>Properties of LevelDbCache.prune\<close>

lemma sublevel_keys_clear_same:
  "sublevel_keys (sublevel_clear_lt db c b) c = filter (\<lambda>k. \<not> k < b) (sublevel_keys db c)"
  by (simp add: sublevel_keys_def sublevel_clear_lt_def filter_sort filter_map o_def conj_commute cong: conj_cong)

lemma sublevel_keys_clear_other:
  "c' \<noteq> c \<Longrightarrow> sublevel_keys (sublevel_clear_lt db c b) c' = sublevel_keys db c'"
proof -
  assume "c' \<noteq> c"
  then have "filter (\<lambda>e. fst (fst e) = c') (sublevel_clear_lt db c b) = filter (\<lambda>e. fst (fst e) = c') db"
    unfolding sublevel_clear_lt_def by (induction db) auto
  then show ?thesis by (simp add: sublevel_keys_def)
qed

lemma sorted_distinct_filter_ge:
  fixes ks :: "('a::linorder) list"
  assumes "sorted ks" "distinct ks" "m < length ks"
  shows "filter (\<lambda>k. \<not> k < ks ! m) ks = drop m ks"
  using assms
proof (induction ks arbitrary: m)
  case Nil
  then show ?case by simp
next
  case (Cons a ks)
  show ?case
  proof (cases m)
    case 0
    have "\<forall>k \<in> set ks. \<not> k < a" using Cons.prems by auto
    then have "filter (\<lambda>k. \<not> k < a) ks = ks" by (simp add: filter_id_conv)
    then show ?thesis using 0 by simp
  next
    case (Suc m')
    then have m': "m' < length ks" using Cons.prems by simp
    have "ks ! m' \<in> set ks" using m' by simp
    then have "a < ks ! m'" using Cons.prems by (auto simp: less_le)
    moreover have "filter (\<lambda>k. \<not> k < ks ! m') ks = drop m' ks"
      using Cons.IH [OF _ _ m'] Cons.prems by simp
    ultimately show ?thesis using Suc by simp
  qed
qed

lemma last_take_rev:
  assumes "0 < n" "n \<le> length ks"
  shows "last (take n (rev ks)) = ks ! (length ks - n)"
proof -
  have "take n (rev ks) \<noteq> []" using assms by auto
  then have "last (take n (rev ks)) = take n (rev ks) ! (length (take n (rev ks)) - 1)"
    by (rule last_conv_nth)
  also have "\<dots> = rev ks ! (n - 1)" using assms by simp
  also have "\<dots> = ks ! (length ks - Suc (n - 1))" using assms by (simp add: rev_nth)
  finally show ?thesis using assms by simp
qed


lemma distinct_sublevel_keys:
  assumes "distinct (map fst db)"
  shows "distinct (sublevel_keys db c)"
proof -
  from assms have d: "distinct db" and i: "inj_on fst (set db)"
    by (simp_all add: distinct_map)
  have "inj_on (\<lambda>e. snd (fst e)) (set (filter (\<lambda>e. fst (fst e) = c) db))"
  proof (rule inj_onI)
    fix x y
    assume x: "x \<in> set (filter (\<lambda>e. fst (fst e) = c) db)"
      and y: "y \<in> set (filter (\<lambda>e. fst (fst e) = c) db)"
      and eq: "snd (fst x) = snd (fst y)"
    from x y eq have "fst x = fst y" by (simp add: prod_eq_iff)
    with i x y show "x = y" by (auto dest: inj_onD)
  qed
  with d show ?thesis by (simp add: sublevel_keys_def distinct_map)
qed

lemma sorted_sublevel_keys: "sorted (sublevel_keys db c)"
  by (simp add: sublevel_keys_def)

lemma set_sublevel_keys:
  "set (sublevel_keys db c) = {k. \<exists>v. ((c, k), v) \<in> set db}"
  by (force simp: sublevel_keys_def image_iff)

lemma distinct_sublevel_clear_lt:
  "distinct (map fst db) \<Longrightarrow> distinct (map fst (sublevel_clear_lt db c b))"
  unfolding sublevel_clear_lt_def by (rule distinct_map_filter)

lemma prune_step_keys:
  assumes "distinct (map fst db)" "0 < n" "\<not> int (length (sublevel_keys_reverse_limit db c n)) < n"
  shows "sublevel_keys (sublevel_clear_lt db c (last (sublevel_keys_reverse_limit db c n))) c
           = drop (length (sublevel_keys db c) - nat n) (sublevel_keys db c)"
proof -
  let ?ks = "sublevel_keys db c"
  have len: "nat n \<le> length ?ks" "0 < nat n"
    using assms(2,3) by (auto simp: sublevel_keys_reverse_limit_def min_def split: if_splits)
  have l: "last (sublevel_keys_reverse_limit db c n) = ?ks ! (length ?ks - nat n)"
    unfolding sublevel_keys_reverse_limit_def using len by (simp add: last_take_rev)
  have "length ?ks - nat n < length ?ks" using len by simp
  from sorted_distinct_filter_ge [OF sorted_sublevel_keys distinct_sublevel_keys [OF assms(1)] this]
  show ?thesis by (simp add: l sublevel_keys_clear_same)
qed

lemma prune_step_short:
  assumes "0 < n"
  shows "int (length (sublevel_keys_reverse_limit db c n)) < n \<longleftrightarrow> length (sublevel_keys db c) < nat n"
  using assms by (auto simp: sublevel_keys_reverse_limit_def min_def)

lemma prune_loop_no_error:
  "\<forall>c \<in> set cs. sublevel c = Inr c \<Longrightarrow> snd (prune_loop cs n db) = None"
  by (induction cs arbitrary: db) (simp_all add: Let_def)

lemma prune_loop_keys:
  assumes "distinct (map fst db)" "0 < n" "distinct cs" "\<forall>c \<in> set cs. sublevel c = Inr c"
  shows "sublevel_keys (fst (prune_loop cs n db)) c
           = (if c \<in> set cs then retained_keys (nat n) (sublevel_keys db c) else sublevel_keys db c)"
  using assms
proof (induction cs arbitrary: db)
  case Nil
  then show ?case by simp
next
  case (Cons a cs)
  let ?entries = "sublevel_keys_reverse_limit db a n"
  have acc: "sublevel a = Inr a" and accs: "\<forall>c \<in> set cs. sublevel c = Inr c"
    using Cons.prems(4) by simp_all
  show ?case
  proof (cases "int (length ?entries) < n")
    case True
    then have short: "length (sublevel_keys db a) < nat n"
      by (simp add: prune_step_short [OF Cons.prems(2)])
    have "sublevel_keys (fst (prune_loop (a # cs) n db)) c
            = sublevel_keys (fst (prune_loop cs n db)) c"
      using True acc by simp
    also have "\<dots> = (if c \<in> set cs then retained_keys (nat n) (sublevel_keys db c) else sublevel_keys db c)"
      using Cons.IH [OF Cons.prems(1,2) _ accs] Cons.prems(3) by simp
    finally show ?thesis using short by (auto simp: retained_keys_def)
  next
    case False
    let ?db' = "sublevel_clear_lt db a (last ?entries)"
    have long: "\<not> length (sublevel_keys db a) < nat n"
      using False by (simp add: prune_step_short [OF Cons.prems(2)])
    have d': "distinct (map fst ?db')" using Cons.prems(1) by (rule distinct_sublevel_clear_lt)
    have "sublevel_keys (fst (prune_loop (a # cs) n db)) c
            = sublevel_keys (fst (prune_loop cs n ?db')) c"
      using False acc by (simp add: Let_def)
    also have "\<dots> = (if c \<in> set cs then retained_keys (nat n) (sublevel_keys ?db' c) else sublevel_keys ?db' c)"
      using Cons.IH [OF d' Cons.prems(2) _ accs] Cons.prems(3) by simp
    finally have eq: "sublevel_keys (fst (prune_loop (a # cs) n db)) c
        = (if c \<in> set cs then retained_keys (nat n) (sublevel_keys ?db' c) else sublevel_keys ?db' c)" .
    show ?thesis
    proof (cases "c = a")
      case True
      then have "c \<notin> set cs" using Cons.prems(3) by simp
      then show ?thesis
        using eq True long prune_step_keys [OF Cons.prems(1,2) False]
        by (simp add: retained_keys_def)
    next
      case False
      then show ?thesis using eq by (simp add: sublevel_keys_clear_other)
    qed
  qed
qed

lemma prune_loop_subset: "set (fst (prune_loop cs n db)) \<subseteq> set db"
proof (induction cs arbitrary: db)
  case Nil
  then show ?case by simp
next
  case (Cons a cs)
  have h: "set (sublevel_clear_lt db x b) \<subseteq> set db" for x b
    by (auto simp: sublevel_clear_lt_def)
  have 1: "set (fst (prune_loop cs n db)) \<subseteq> set db" by (rule Cons.IH)
  have 2: "set (fst (prune_loop cs n (sublevel_clear_lt db x b))) \<subseteq> set db" for x b
    by (rule subset_trans [OF Cons.IH h])
  show ?case using 1 2 by (simp add: Let_def split: sum.splits)
qed

lemma set_LevelDbCache_keys:
  assumes "\<forall>e \<in> set db. length (fst (fst e)) = 43"
  shows "set (LevelDbCache_keys db) = (\<lambda>e. fst (fst e)) ` set db"
proof -
  have "take 43 (drop 1 (flat_key (fst e))) = fst (fst e)" if "e \<in> set db" for e
    using assms that by (simp add: flat_key_def)
  then have "(\<lambda>k. take 43 (drop 1 k)) ` (\<lambda>e. flat_key (fst e)) ` set db = (\<lambda>e. fst (fst e)) ` set db"
    by (force simp: image_iff)
  then show ?thesis by (simp add: LevelDbCache_keys_def)
qed

lemma sublevel_keys_absent:
  "c \<notin> (\<lambda>e. fst (fst e)) ` set db \<Longrightarrow> sublevel_keys db c = []"
proof -
  assume "c \<notin> (\<lambda>e. fst (fst e)) ` set db"
  then have "filter (\<lambda>e. fst (fst e) = c) db = []"
    by (auto simp: filter_empty_conv image_iff)
  then show ?thesis by (simp add: sublevel_keys_def)
qed

lemma prune_accepts:
  assumes "\<forall>e \<in> set db. length (fst (fst e)) = 43 \<and> sublevel (fst (fst e)) = Inr (fst (fst e))"
  shows "\<forall>c \<in> set (LevelDbCache_keys db). sublevel c = Inr c"
proof -
  from assms have "\<forall>e \<in> set db. length (fst (fst e)) = 43" by simp
  from set_LevelDbCache_keys [OF this] assms show ?thesis by auto
qed

lemma prune_no_error:
  assumes "\<forall>e \<in> set db. length (fst (fst e)) = 43 \<and> sublevel (fst (fst e)) = Inr (fst (fst e))"
  shows "snd (LevelDbCache_prune a db) = None"
  unfolding LevelDbCache_prune_def by (rule prune_loop_no_error [OF prune_accepts [OF assms]])

lemma prune_keys:
  assumes "distinct (map fst db)"
    "\<forall>e \<in> set db. length (fst (fst e)) = 43 \<and> sublevel (fst (fst e)) = Inr (fst (fst e))"
  shows "sublevel_keys (fst (LevelDbCache_prune a db)) c
           = retained_keys (nat (entriesStored_of a)) (sublevel_keys db c)"
proof -
  have pos: "0 < entriesStored_of a"
    by (auto simp: entriesStored_of_def default_entriesStored_def split: option.splits prune_arg.splits)
  have "distinct (LevelDbCache_keys db)" by (simp add: LevelDbCache_keys_def)
  from assms(2) have len: "\<forall>e \<in> set db. length (fst (fst e)) = 43" by simp
  from prune_loop_keys [OF assms(1) pos \<open>distinct (LevelDbCache_keys db)\<close> prune_accepts [OF assms(2)]]
  show ?thesis
    by (auto simp: LevelDbCache_prune_def set_LevelDbCache_keys [OF len]
        sublevel_keys_absent retained_keys_def simp del: image_image)
qed

lemma prune_entries:
  assumes "distinct (map fst db)"
    "\<forall>e \<in> set db. length (fst (fst e)) = 43 \<and> sublevel (fst (fst e)) = Inr (fst (fst e))"
  shows "((c, k), v) \<in> set (fst (LevelDbCache_prune a db)) \<longleftrightarrow>
           ((c, k), v) \<in> set db
           \<and> k \<in> set (retained_keys (nat (entriesStored_of a)) (sublevel_keys db c))"
proof
  assume in_p: "((c, k), v) \<in> set (fst (LevelDbCache_prune a db))"
  then have "k \<in> set (sublevel_keys (fst (LevelDbCache_prune a db)) c)"
    by (auto simp: set_sublevel_keys)
  then have 1: "k \<in> set (retained_keys (nat (entriesStored_of a)) (sublevel_keys db c))"
    by (simp add: prune_keys [OF assms])
  have 2: "((c, k), v) \<in> set db"
    using in_p prune_loop_subset [of "LevelDbCache_keys db" "entriesStored_of a" db]
    by (auto simp: LevelDbCache_prune_def)
  from 1 2 show "((c, k), v) \<in> set db
           \<and> k \<in> set (retained_keys (nat (entriesStored_of a)) (sublevel_keys db c))"
    by simp
next
  assume r: "((c, k), v) \<in> set db
           \<and> k \<in> set (retained_keys (nat (entriesStored_of a)) (sublevel_keys db c))"
  then have "k \<in> set (sublevel_keys (fst (LevelDbCache_prune a db)) c)"
    by (simp add: prune_keys [OF assms])
  then obtain v' where v': "((c, k), v') \<in> set (fst (LevelDbCache_prune a db))"
    by (auto simp: set_sublevel_keys)
  then have "((c, k), v') \<in> set db"
    using prune_loop_subset [of "LevelDbCache_keys db" "entriesStored_of a" db]
    by (auto simp: LevelDbCache_prune_def)
  with r assms(1) have "v' = v" by (meson eq_key_imp_eq_value)
  with v' show "((c, k), v) \<in> set (fst (LevelDbCache_prune a db))" by simp
qed

text \<open>
  Claim C10, as amended. \<open>prune(entriesStored)\<close> treats \<open>null\<close>, zero and negative
  numbers as 1 and a missing argument (\<open>undefined\<close>) as the default 5. When every contract
  id in the store has 43 characters and is a name that \<open>sublevel\<close> accepts as it is, the
  call does not throw, and for every contract with fewer stored entries than that number
  nothing is deleted; otherwise exactly the entries with the \<open>entriesStored\<close> greatest sort
  keys are retained, with their values, and all entries with smaller sort keys are removed.
\<close>

theorem LevelDbCache_prune_retains:
  assumes "distinct (map fst db)"
    and "\<forall>e \<in> set db. length (fst (fst e)) = 43 \<and> sublevel (fst (fst e)) = Inr (fst (fst e))"
  shows "entriesStored_of ArgUndefined = 5 \<and> entriesStored_of ArgNull = 1
     \<and> entriesStored_of (ArgNum n) = (if n \<le> 0 then 1 else n)
     \<and> snd (LevelDbCache_prune a db) = None
     \<and> sublevel_keys (fst (LevelDbCache_prune a db)) c
          = retained_keys (nat (entriesStored_of a)) (sublevel_keys db c)
     \<and> (((c, k), v) \<in> set (fst (LevelDbCache_prune a db)) \<longleftrightarrow>
          ((c, k), v) \<in> set db
          \<and> k \<in> set (retained_keys (nat (entriesStored_of a)) (sublevel_keys db c)))"
proof -
  have "entriesStored_of ArgUndefined = 5" "entriesStored_of ArgNull = 1"
    "entriesStored_of (ArgNum n) = (if n \<le> 0 then 1 else n)"
    by (simp_all add: entriesStored_of_def default_entriesStored_def)
  with prune_keys [OF assms] prune_entries [OF assms] prune_no_error [OF assms(2)]
  show ?thesis by simp
qed

lemma sublevel_example:
  "sublevel ''uhE-QeYS8i4pmUtnxQyHD7dzXFNaJ9oMK-IM-QPNY6M'' = Inr ''uhE-QeYS8i4pmUtnxQyHD7dzXFNaJ9oMK-IM-QPNY6M''"
  by (simp add: sublevel_def trim_separator_def)

theorem LevelDbCache_prune_retains_witness:
  "snd (LevelDbCache_prune (ArgNum 2)
      [((''uhE-QeYS8i4pmUtnxQyHD7dzXFNaJ9oMK-IM-QPNY6M'', ''a''), 10::nat), ((''uhE-QeYS8i4pmUtnxQyHD7dzXFNaJ9oMK-IM-QPNY6M'', ''b''), 20), ((''uhE-QeYS8i4pmUtnxQyHD7dzXFNaJ9oMK-IM-QPNY6M'', ''c''), 30), ((''uhE-QeYS8i4pmUtnxQyHD7dzXFNaJ9oMK-IM-QPNY6M'', ''d''), 40),
       ((''uhE-QeYS8i4pmUtnxQyHD7dzXFNaJ9oMK-IM-QPNY6M'', ''e''), 50), ((''uhE-QeYS8i4pmUtnxQyHD7dzXFNaJ9oMK-IM-QPNY6M'', ''f''), 60)]) = None
   \<and> sublevel_keys (fst (LevelDbCache_prune (ArgNum 2)
      [((''uhE-QeYS8i4pmUtnxQyHD7dzXFNaJ9oMK-IM-QPNY6M'', ''a''), 10::nat), ((''uhE-QeYS8i4pmUtnxQyHD7dzXFNaJ9oMK-IM-QPNY6M'', ''b''), 20), ((''uhE-QeYS8i4pmUtnxQyHD7dzXFNaJ9oMK-IM-QPNY6M'', ''c''), 30), ((''uhE-QeYS8i4pmUtnxQyHD7dzXFNaJ9oMK-IM-QPNY6M'', ''d''), 40),
       ((''uhE-QeYS8i4pmUtnxQyHD7dzXFNaJ9oMK-IM-QPNY6M'', ''e''), 50), ((''uhE-QeYS8i4pmUtnxQyHD7dzXFNaJ9oMK-IM-QPNY6M'', ''f''), 60)])) ''uhE-QeYS8i4pmUtnxQyHD7dzXFNaJ9oMK-IM-QPNY6M'' = [''e'', ''f'']
   \<and> snd (LevelDbCache_prune (ArgNum 7)
      [((''uhE-QeYS8i4pmUtnxQyHD7dzXFNaJ9oMK-IM-QPNY6M'', ''a''), 10::nat), ((''uhE-QeYS8i4pmUtnxQyHD7dzXFNaJ9oMK-IM-QPNY6M'', ''b''), 20), ((''uhE-QeYS8i4pmUtnxQyHD7dzXFNaJ9oMK-IM-QPNY6M'', ''c''), 30), ((''uhE-QeYS8i4pmUtnxQyHD7dzXFNaJ9oMK-IM-QPNY6M'', ''d''), 40),
       ((''uhE-QeYS8i4pmUtnxQyHD7dzXFNaJ9oMK-IM-QPNY6M'', ''e''), 50), ((''uhE-QeYS8i4pmUtnxQyHD7dzXFNaJ9oMK-IM-QPNY6M'', ''f''), 60)]) = None
   \<and> sublevel_keys (fst (LevelDbCache_prune (ArgNum 7)
      [((''uhE-QeYS8i4pmUtnxQyHD7dzXFNaJ9oMK-IM-QPNY6M'', ''a''), 10::nat), ((''uhE-QeYS8i4pmUtnxQyHD7dzXFNaJ9oMK-IM-QPNY6M'', ''b''), 20), ((''uhE-QeYS8i4pmUtnxQyHD7dzXFNaJ9oMK-IM-QPNY6M'', ''c''), 30), ((''uhE-QeYS8i4pmUtnxQyHD7dzXFNaJ9oMK-IM-QPNY6M'', ''d''), 40),
       ((''uhE-QeYS8i4pmUtnxQyHD7dzXFNaJ9oMK-IM-QPNY6M'', ''e''), 50), ((''uhE-QeYS8i4pmUtnxQyHD7dzXFNaJ9oMK-IM-QPNY6M'', ''f''), 60)])) ''uhE-QeYS8i4pmUtnxQyHD7dzXFNaJ9oMK-IM-QPNY6M'' = [''a'', ''b'', ''c'', ''d'', ''e'', ''f'']"
proof -
  let ?db = "[((''uhE-QeYS8i4pmUtnxQyHD7dzXFNaJ9oMK-IM-QPNY6M'', ''a''), 10::nat), ((''uhE-QeYS8i4pmUtnxQyHD7dzXFNaJ9oMK-IM-QPNY6M'', ''b''), 20), ((''uhE-QeYS8i4pmUtnxQyHD7dzXFNaJ9oMK-IM-QPNY6M'', ''c''), 30), ((''uhE-QeYS8i4pmUtnxQyHD7dzXFNaJ9oMK-IM-QPNY6M'', ''d''), 40),
       ((''uhE-QeYS8i4pmUtnxQyHD7dzXFNaJ9oMK-IM-QPNY6M'', ''e''), 50), ((''uhE-QeYS8i4pmUtnxQyHD7dzXFNaJ9oMK-IM-QPNY6M'', ''f''), 60)]"
  have d: "distinct (map fst ?db)" by simp
  have l: "\<forall>e \<in> set ?db. length (fst (fst e)) = 43 \<and> sublevel (fst (fst e)) = Inr (fst (fst e))"
    by (simp add: sublevel_example)
  have k: "sublevel_keys ?db ''uhE-QeYS8i4pmUtnxQyHD7dzXFNaJ9oMK-IM-QPNY6M'' = [''a'', ''b'', ''c'', ''d'', ''e'', ''f'']"
    by (simp add: sublevel_keys_def)
  have 2: "snd (LevelDbCache_prune (ArgNum 2) ?db) = None
           \<and> sublevel_keys (fst (LevelDbCache_prune (ArgNum 2) ?db)) ''uhE-QeYS8i4pmUtnxQyHD7dzXFNaJ9oMK-IM-QPNY6M''
             = retained_keys (nat (entriesStored_of (ArgNum 2))) (sublevel_keys ?db ''uhE-QeYS8i4pmUtnxQyHD7dzXFNaJ9oMK-IM-QPNY6M'')"
    using LevelDbCache_prune_retains [OF d l, of 2 "ArgNum 2" "''uhE-QeYS8i4pmUtnxQyHD7dzXFNaJ9oMK-IM-QPNY6M''" "''a''" 10] by blast
  have 7: "snd (LevelDbCache_prune (ArgNum 7) ?db) = None
           \<and> sublevel_keys (fst (LevelDbCache_prune (ArgNum 7) ?db)) ''uhE-QeYS8i4pmUtnxQyHD7dzXFNaJ9oMK-IM-QPNY6M''
             = retained_keys (nat (entriesStored_of (ArgNum 7))) (sublevel_keys ?db ''uhE-QeYS8i4pmUtnxQyHD7dzXFNaJ9oMK-IM-QPNY6M'')"
    using LevelDbCache_prune_retains [OF d l, of 7 "ArgNum 7" "''uhE-QeYS8i4pmUtnxQyHD7dzXFNaJ9oMK-IM-QPNY6M''" "''a''" 10] by blast
  have e: "entriesStored_of (ArgNum 2) = 2" "entriesStored_of (ArgNum 7) = 7"
    by (simp_all add: entriesStored_of_def default_entriesStored_def)
  have r: "retained_keys (nat 2) [''a'', ''b'', ''c'', ''d'', ''e'', ''f''] = [''e'', ''f'']"
    "retained_keys (nat 7) [''a'', ''b'', ''c'', ''d'', ''e'', ''f'']
       = [''a'', ''b'', ''c'', ''d'', ''e'', ''f'']"
    by (simp_all add: retained_keys_def)
  from 2 7 show ?thesis
    unfolding k e r by blast
qed

theorem LevelDbCache_prune_undefined_counterexample:
  "LevelDbCache_prune ArgUndefined [((''uhE-QeYS8i4pmUtnxQyHD7dzXFNaJ9oMK-IM-QPNY6M'', ''a''), 1::nat), ((''uhE-QeYS8i4pmUtnxQyHD7dzXFNaJ9oMK-IM-QPNY6M'', ''b''), 2)]
     = ([((''uhE-QeYS8i4pmUtnxQyHD7dzXFNaJ9oMK-IM-QPNY6M'', ''a''), 1), ((''uhE-QeYS8i4pmUtnxQyHD7dzXFNaJ9oMK-IM-QPNY6M'', ''b''), 2)], None)
   \<and> LevelDbCache_prune (ArgNum 1) [((''uhE-QeYS8i4pmUtnxQyHD7dzXFNaJ9oMK-IM-QPNY6M'', ''a''), 1::nat), ((''uhE-QeYS8i4pmUtnxQyHD7dzXFNaJ9oMK-IM-QPNY6M'', ''b''), 2)]
     = ([((''uhE-QeYS8i4pmUtnxQyHD7dzXFNaJ9oMK-IM-QPNY6M'', ''b''), 2)], None)
   \<and> LevelDbCache_prune (ArgNum 1) [((''C'', ''a''), 1::nat), ((''C'', ''b''), 2)]
     = ([((''C'', ''a''), 1), ((''C'', ''b''), 2)], Some LEVEL_INVALID_PREFIX)
   \<and> LevelDbCache_prune (ArgNum 1)
        [((''C'', ''a''), 1::nat), ((''uhE-QeYS8i4pmUtnxQyHD7dzXFNaJ9oMK-IM-QPNY6M'', ''a''), 2), ((''uhE-QeYS8i4pmUtnxQyHD7dzXFNaJ9oMK-IM-QPNY6M'', ''b''), 3)]
     = ([((''C'', ''a''), 1), ((''uhE-QeYS8i4pmUtnxQyHD7dzXFNaJ9oMK-IM-QPNY6M'', ''a''), 2), ((''uhE-QeYS8i4pmUtnxQyHD7dzXFNaJ9oMK-IM-QPNY6M'', ''b''), 3)], Some LEVEL_INVALID_PREFIX)"
  by (simp add: LevelDbCache_prune_def LevelDbCache_keys_def flat_key_def entriesStored_of_def
      default_entriesStored_def sublevel_keys_reverse_limit_def sublevel_keys_def
      sublevel_clear_lt_def sublevel_def trim_separator_def)

section \<open>Properties of CacheableInteractionsLoader.load\<close>

text \<open>
  Claim C9. Once the memo holds a list for the contract, a \<open>load\<close> whose \<open>toSortKey\<close> does
  not compare greater than the sort key of the last memoized interaction (the genesis sort
  key when the memoized list is empty) returns the whole memoized list and leaves the memo
  as it is, whatever \<open>fromSortKey\<close> and \<open>toSortKey\<close> are: the delegate is not called and
  the bounds are not applied to the list. The comparison is the one \<open>localeCompare\<close> makes;
  where it agrees with the lexicographic order on the two keys, as it does on well-formed
  sort keys, this is the \<open>toSortKey\<close> that is not lexicographically greater.
\<close>

theorem CacheableInteractionsLoader_load_memo_hit:
  assumes "interactionsCache contractTxId = Some cachedInteractions"
    and "lastCachedKey
           = (if cachedInteractions \<noteq> [] then sortKey (last cachedInteractions) else genesisSortKey)"
  shows "(\<not> localeCompare lastCachedKey (compareString toSortKey) < 0
          \<longrightarrow> CacheableInteractionsLoader_load localeCompare delegate genesisSortKey contractTxId
                  fromSortKey toSortKey interactionsCache
                = Inr (cachedInteractions, interactionsCache))
       \<and> ((localeCompare lastCachedKey (compareString toSortKey) < 0
              \<longleftrightarrow> lastCachedKey < compareString toSortKey)
          \<and> \<not> lastCachedKey < compareString toSortKey
          \<longrightarrow> CacheableInteractionsLoader_load localeCompare delegate genesisSortKey contractTxId
                  fromSortKey toSortKey interactionsCache
                = Inr (cachedInteractions, interactionsCache))"
  using assms by (simp add: CacheableInteractionsLoader_load_def Let_def)

theorem CacheableInteractionsLoader_load_memo_hit_witness:
  "CacheableInteractionsLoader_load lexicographicCompare (\<lambda>c f t. Inl (Rejected ''not called''))
     ''000000000000,0000000000000,00'' ''c''
     (Some ''000000000002,0000000000000,bb'') (Some ''000000000002,0000000000000,bb'')
     [''c'' \<mapsto>
        [example_tx ''t1'' ''000000000001,0000000000000,aa'' [],
         example_tx ''t2'' ''000000000002,0000000000000,bb'' [],
         example_tx ''t3'' ''000000000003,0000000000000,cc'' []]]
   = Inr ([example_tx ''t1'' ''000000000001,0000000000000,aa'' [],
           example_tx ''t2'' ''000000000002,0000000000000,bb'' [],
           example_tx ''t3'' ''000000000003,0000000000000,cc'' []],
          [''c'' \<mapsto>
            [example_tx ''t1'' ''000000000001,0000000000000,aa'' [],
             example_tx ''t2'' ''000000000002,0000000000000,bb'' [],
             example_tx ''t3'' ''000000000003,0000000000000,cc'' []]])"
proof -
  let ?xs = "[example_tx ''t1'' ''000000000001,0000000000000,aa'' [],
         example_tx ''t2'' ''000000000002,0000000000000,bb'' [],
         example_tx ''t3'' ''000000000003,0000000000000,cc'' []]"
  let ?last = "''000000000003,0000000000000,cc''"
  let ?to = "Some ''000000000002,0000000000000,bb''"
  have m: "[''c'' \<mapsto> ?xs] ''c'' = Some ?xs" by simp
  have l: "?last = (if ?xs \<noteq> [] then sortKey (last ?xs) else ''000000000000,0000000000000,00'')"
    by (simp add: example_tx_def)
  have a: "(lexicographicCompare ?last (compareString ?to) < 0
              \<longleftrightarrow> ?last < compareString ?to)
          \<and> \<not> ?last < compareString ?to"
    by (simp add: lexicographicCompare_def compareString_def)
  from CacheableInteractionsLoader_load_memo_hit
    [where interactionsCache = "[''c'' \<mapsto> ?xs]" and contractTxId = "''c''"
       and localeCompare = lexicographicCompare and toSortKey = ?to, OF m l] a
  show ?thesis by blast
qed

section \<open>Properties of WarpGatewayInteractionsLoader.load\<close>

lemma load_loop_step:
  "load_loop (Suc fuel) fetch loader c f t page acc =
     (let r = fetch (searchParams loader c f t (Suc page)) in
      if \<not> page_ok r then Some (Inl (page_error r))
      else if int (Suc page) < page_total r
           then load_loop fuel fetch loader c f t (Suc page) (acc @ page_interactions r)
           else Some (Inr (acc @ page_interactions r)))"
  by (simp add: page_ok_def page_error_def page_total_def page_interactions_def Let_def
      split: fetch_result.splits)

lemma load_loop_success:
  assumes "\<forall>p. page < p \<and> p < n \<longrightarrow>
             page_ok (fetch (searchParams loader c f t p))
             \<and> int p < page_total (fetch (searchParams loader c f t p))"
    and "page_ok (fetch (searchParams loader c f t n))"
    and "\<not> int n < page_total (fetch (searchParams loader c f t n))"
    and "page < n" and "n - page \<le> fuel"
  shows "load_loop fuel fetch loader c f t page acc
           = Some (Inr (acc @ concat (map (\<lambda>p. page_interactions (fetch (searchParams loader c f t p)))
                                        [Suc page..<Suc n])))"
  using assms
proof (induction fuel arbitrary: page acc)
  case 0
  then show ?case by simp
next
  case (Suc fuel)
  show ?case
  proof (cases "Suc page = n")
    case True
    with Suc.prems(2,3) show ?thesis
      by (simp only: load_loop_step Let_def) simp
  next
    case False
    with Suc.prems(4) have lt: "Suc page < n" by simp
    with Suc.prems(1) have ok: "page_ok (fetch (searchParams loader c f t (Suc page)))"
      and more: "int (Suc page) < page_total (fetch (searchParams loader c f t (Suc page)))"
      by auto
    have "load_loop fuel fetch loader c f t (Suc page)
            (acc @ page_interactions (fetch (searchParams loader c f t (Suc page))))
          = Some (Inr ((acc @ page_interactions (fetch (searchParams loader c f t (Suc page))))
               @ concat (map (\<lambda>p. page_interactions (fetch (searchParams loader c f t p)))
                                        [Suc (Suc page)..<Suc n])))"
      using Suc.prems lt by (intro Suc.IH) auto
    moreover have "[Suc page..<Suc n] = Suc page # [Suc (Suc page)..<Suc n]"
      using lt by (simp add: upt_conv_Cons)
    ultimately show ?thesis
      using ok more by (simp only: load_loop_step Let_def) simp
  qed
qed

lemma load_loop_failure:
  assumes "\<forall>p. page < p \<and> p < m \<longrightarrow>
             page_ok (fetch (searchParams loader c f t p))
             \<and> int p < page_total (fetch (searchParams loader c f t p))"
    and "\<not> page_ok (fetch (searchParams loader c f t m))"
    and "page < m" and "m - page \<le> fuel"
  shows "load_loop fuel fetch loader c f t page acc
           = Some (Inl (page_error (fetch (searchParams loader c f t m))))"
  using assms
proof (induction fuel arbitrary: page acc)
  case 0
  then show ?case by simp
next
  case (Suc fuel)
  show ?case
  proof (cases "Suc page = m")
    case True
    with Suc.prems(2) show ?thesis
      by (simp only: load_loop_step Let_def) simp
  next
    case False
    with Suc.prems(3) have lt: "Suc page < m" by simp
    with Suc.prems(1) have ok: "page_ok (fetch (searchParams loader c f t (Suc page)))"
      and more: "int (Suc page) < page_total (fetch (searchParams loader c f t (Suc page)))"
      by auto
    have "load_loop fuel fetch loader c f t (Suc page)
            (acc @ page_interactions (fetch (searchParams loader c f t (Suc page))))
          = Some (Inl (page_error (fetch (searchParams loader c f t m))))"
      using Suc.prems lt by (intro Suc.IH) auto
    then show ?thesis
      using ok more by (simp only: load_loop_step Let_def) simp
  qed
qed


text \<open>
  Pagination. Let pages \<open>1 .. n - 1\<close> be answered with a 2xx status and a \<open>paging.pages\<close>
  greater than their number. If page \<open>n\<close> is answered with a 2xx status and \<open>paging.pages\<close>
  not greater than \<open>n\<close>, \<open>load\<close> returns the concatenation of the interactions of pages
  \<open>1 .. n\<close>, each tagged with its status as \<open>confirmationStatus\<close>. If page \<open>n\<close> is answered
  with a status outside 200..299, or the request rejects, \<open>load\<close> returns no list: it
  throws the error of that page.
\<close>

lemma load_pages:
  assumes "\<forall>p. 0 < p \<and> p < n \<longrightarrow>
             page_ok (fetch (searchParams loader contractId fromSortKey toSortKey p))
             \<and> int p < page_total (fetch (searchParams loader contractId fromSortKey toSortKey p))"
    and "0 < n" and "n \<le> fuel"
  shows "(page_ok (fetch (searchParams loader contractId fromSortKey toSortKey n))
          \<and> \<not> int n < page_total (fetch (searchParams loader contractId fromSortKey toSortKey n))
          \<longrightarrow> WarpGatewayInteractionsLoader_load fuel fetch loader contractId fromSortKey toSortKey
                = Some (Inr (concat (map
                    (\<lambda>p. page_interactions (fetch (searchParams loader contractId fromSortKey toSortKey p)))
                    [1..<Suc n]))))
       \<and> (\<forall>status body.
            fetch (searchParams loader contractId fromSortKey toSortKey n) = Response status body
            \<and> \<not> (200 \<le> status \<and> status \<le> 299)
          \<longrightarrow> WarpGatewayInteractionsLoader_load fuel fetch loader contractId fromSortKey toSortKey
                = Some (Inl (ErrorObject ''Error''
                    (''Unable to retrieve transactions. Warp gateway responded with status ''
                       @ decimal status @ ''.'') None None)))
       \<and> (\<forall>status.
            fetch (searchParams loader contractId fromSortKey toSortKey n) = FetchRejected status
          \<longrightarrow> WarpGatewayInteractionsLoader_load fuel fetch loader contractId fromSortKey toSortKey
                = Some (Inl (ErrorObject ''Error''
                    (''Unable to retrieve transactions. Warp gateway responded with status ''
                       @ status_text status @ ''.'') None None)))"
proof (intro conjI impI allI)
  assume "page_ok (fetch (searchParams loader contractId fromSortKey toSortKey n))
          \<and> \<not> int n < page_total (fetch (searchParams loader contractId fromSortKey toSortKey n))"
  then show "WarpGatewayInteractionsLoader_load fuel fetch loader contractId fromSortKey toSortKey
                = Some (Inr (concat (map
                    (\<lambda>p. page_interactions (fetch (searchParams loader contractId fromSortKey toSortKey p)))
                    [1..<Suc n])))"
    unfolding WarpGatewayInteractionsLoader_load_def
    using load_loop_success [of 0 n fetch loader contractId fromSortKey toSortKey fuel "[]"] assms
    by simp
next
  fix status body
  assume f: "fetch (searchParams loader contractId fromSortKey toSortKey n) = Response status body
            \<and> \<not> (200 \<le> status \<and> status \<le> 299)"
  then have "\<not> page_ok (fetch (searchParams loader contractId fromSortKey toSortKey n))"
    by (simp add: page_ok_def res_ok_def)
  from load_loop_failure [of 0 n fetch loader contractId fromSortKey toSortKey fuel "[]", OF _ this]
  show "WarpGatewayInteractionsLoader_load fuel fetch loader contractId fromSortKey toSortKey
                = Some (Inl (ErrorObject ''Error''
                    (''Unable to retrieve transactions. Warp gateway responded with status ''
                       @ decimal status @ ''.'') None None))"
    unfolding WarpGatewayInteractionsLoader_load_def
    using assms f by (simp add: page_error_def gateway_error_def)
next
  fix status
  assume f: "fetch (searchParams loader contractId fromSortKey toSortKey n) = FetchRejected status"
  then have "\<not> page_ok (fetch (searchParams loader contractId fromSortKey toSortKey n))"
    by (simp add: page_ok_def)
  from load_loop_failure [of 0 n fetch loader contractId fromSortKey toSortKey fuel "[]", OF _ this]
  show "WarpGatewayInteractionsLoader_load fuel fetch loader contractId fromSortKey toSortKey
                = Some (Inl (ErrorObject ''Error''
                    (''Unable to retrieve transactions. Warp gateway responded with status ''
                       @ status_text status @ ''.'') None None))"
    unfolding WarpGatewayInteractionsLoader_load_def
    using assms f by (simp add: page_error_def gateway_error_def)
qed

lemma load_pages_example:
  "WarpGatewayInteractionsLoader_load 2
     (\<lambda>q. if map_of q ''page'' = Some ''1''
           then Response 200 \<lparr>paging_pages = 2, interactions =
                  [(\<lparr>tx_id = ''t1'', sortKey = ''k1'', dry = None, confirmationStatus = None,
                     owner_address = ''o'', vrf = None, tags = []\<rparr>, ''confirmed'')]\<rparr>
           else Response 200 \<lparr>paging_pages = 2, interactions =
                  [(\<lparr>tx_id = ''t2'', sortKey = ''k2'', dry = None, confirmationStatus = None,
                     owner_address = ''o'', vrf = None, tags = []\<rparr>, ''not_processed'')]\<rparr>)
     \<lparr>baseUrl = ''https://gw'', filter_confirmed = False, filter_notCorrupted = True, source = None\<rparr>
     ''c'' None None
   = Some (Inr [\<lparr>tx_id = ''t1'', sortKey = ''k1'', dry = None, confirmationStatus = Some ''confirmed'',
                  owner_address = ''o'', vrf = None, tags = []\<rparr>,
                \<lparr>tx_id = ''t2'', sortKey = ''k2'', dry = None, confirmationStatus = Some ''not_processed'',
                  owner_address = ''o'', vrf = None, tags = []\<rparr>])
   \<and> WarpGatewayInteractionsLoader_load 2
     (\<lambda>q. if map_of q ''page'' = Some ''1''
           then Response 200 \<lparr>paging_pages = 2, interactions =
                  [(\<lparr>tx_id = ''t1'', sortKey = ''k1'', dry = None, confirmationStatus = None,
                     owner_address = ''o'', vrf = None, tags = []\<rparr>, ''confirmed'')]\<rparr>
           else Response 504 \<lparr>paging_pages = 0, interactions = []\<rparr>)
     \<lparr>baseUrl = ''https://gw'', filter_confirmed = False, filter_notCorrupted = True, source = None\<rparr>
     ''c'' None None
   = Some (Inl (ErrorObject ''Error''
        ''Unable to retrieve transactions. Warp gateway responded with status 504.'' None None))"
proof -
  let ?i1 = "\<lparr>tx_id = ''t1'', sortKey = ''k1'', dry = None, confirmationStatus = None,
                     owner_address = ''o'', vrf = None, tags = []\<rparr>"
  let ?i2 = "\<lparr>tx_id = ''t2'', sortKey = ''k2'', dry = None, confirmationStatus = None,
                     owner_address = ''o'', vrf = None, tags = []\<rparr>"
  let ?good = "\<lambda>q. if map_of q ''page'' = Some ''1''
           then Response 200 \<lparr>paging_pages = 2, interactions = [(?i1, ''confirmed'')]\<rparr>
           else Response 200 \<lparr>paging_pages = 2, interactions = [(?i2, ''not_processed'')]\<rparr>"
  let ?bad = "\<lambda>q. if map_of q ''page'' = Some ''1''
           then Response 200 \<lparr>paging_pages = 2, interactions = [(?i1, ''confirmed'')]\<rparr>
           else Response 504 \<lparr>paging_pages = 0, interactions = []\<rparr>"
  let ?loader = "\<lparr>baseUrl = ''https://gw'', filter_confirmed = False, filter_notCorrupted = True,
                    source = None\<rparr>"
  have p1: "map_of (searchParams ?loader ''c'' None None p) ''page'' = Some (decimal p)" for p
    by (simp add: searchParams_def)
  have d: "decimal (Suc 0) = ''1''" "decimal 2 = ''2''" by simp_all
  have lt2: "(0 < p \<and> p < (2::nat)) = (p = Suc 0)" for p by auto
  have upt: "[Suc 0..<3] = [Suc 0, 2]" by (simp add: upt_rec)
  have g: "\<forall>p. 0 < p \<and> p < 2 \<longrightarrow>
             page_ok (?good (searchParams ?loader ''c'' None None p))
             \<and> int p < page_total (?good (searchParams ?loader ''c'' None None p))"
    by (simp add: lt2 p1 d page_ok_def page_total_def res_ok_def)
  have b: "\<forall>p. 0 < p \<and> p < 2 \<longrightarrow>
             page_ok (?bad (searchParams ?loader ''c'' None None p))
             \<and> int p < page_total (?bad (searchParams ?loader ''c'' None None p))"
    by (simp add: lt2 p1 d page_ok_def page_total_def res_ok_def)
  have 1: "WarpGatewayInteractionsLoader_load 2 ?good ?loader ''c'' None None
            = Some (Inr [?i1\<lparr>confirmationStatus := Some ''confirmed''\<rparr>,
                         ?i2\<lparr>confirmationStatus := Some ''not_processed''\<rparr>])"
    using load_pages [OF g, of 2]
    by (simp add: p1 d upt page_ok_def page_total_def res_ok_def page_interactions_def tagged_def)
  have 2: "WarpGatewayInteractionsLoader_load 2 ?bad ?loader ''c'' None None
            = Some (Inl (ErrorObject ''Error''
        ''Unable to retrieve transactions. Warp gateway responded with status 504.'' None None))"
    using load_pages [OF b, of 2]
    by (simp add: p1 d)
  from 1 2 show ?thesis by simp
qed



section \<open>Properties of JsHandlerApi.handle\<close>

text \<open>
  Claim C5. When the contract function throws an error whose name is \<open>ContractError\<close>,
  \<open>handle\<close> returns a result of type \<open>error\<close> whose \<open>errorMessage\<close> is the thrown message,
  whose \<open>state\<close> is the state of the incoming \<open>currentResult\<close> and whose \<open>result\<close> is
  \<open>null\<close>; the key-value storage is rolled back.
\<close>

theorem JsHandlerApi_handle_ContractError:
  assumes "contractFunction (state currentResult) (interaction interactionData)
             = RejectedWith (ErrorObject ''ContractError'' m st sub)"
  shows "JsHandlerApi_handle falsyState contractFunction JSON_stringify stackOf currentResult
             interactionData
           = (\<lparr>res_type = Type_error, res_result = None, res_state = state currentResult,
                res_errorMessage = Some m\<rparr>,
              [KvOpen, KvRollback, KvClose])"
  using assms by (simp add: JsHandlerApi_handle_def)

theorem JsHandlerApi_handle_ContractError_witness:
  "JsHandlerApi_handle (\<lambda>s. s = 0)
     (\<lambda>s i. if input i = JObj [(''function'', JStr ''__init'')]
            then RejectedWith (ErrorObject ''ContractError'' ''init is not callable''
                   (Some ''ContractError: init is not callable at handle'') None)
            else Fulfilled (Some (HandlerResult (Some (s + 1)) None)))
     (\<lambda>r. ''undefined'') (\<lambda>m. None)
     \<lparr>state = (7::nat), validity = Map.empty, errorMessages = Map.empty\<rparr>
     \<lparr>interaction = \<lparr>input = JObj [(''function'', JStr ''__init'')], caller = ''o'',
                      interactionType = Write\<rparr>,
      interactionTx = \<lparr>tx_id = ''t1'', sortKey = ''k1'', dry = None, confirmationStatus = None,
                       owner_address = ''o'', vrf = None, tags = []\<rparr>\<rparr>
   = (\<lparr>res_type = Type_error, res_result = None, res_state = 7,
        res_errorMessage = Some ''init is not callable''\<rparr>,
      [KvOpen, KvRollback, KvClose])"
proof -
  let ?f = "\<lambda>s i. if input i = JObj [(''function'', JStr ''__init'')]
            then RejectedWith (ErrorObject ''ContractError'' ''init is not callable''
                   (Some ''ContractError: init is not callable at handle'') None)
            else Fulfilled (Some (HandlerResult (Some (s + 1)) None))"
  let ?cur = "\<lparr>state = (7::nat), validity = Map.empty, errorMessages = Map.empty\<rparr>"
  let ?d = "\<lparr>interaction = \<lparr>input = JObj [(''function'', JStr ''__init'')], caller = ''o'',
                      interactionType = Write\<rparr>,
      interactionTx = \<lparr>tx_id = ''t1'', sortKey = ''k1'', dry = None, confirmationStatus = None,
                       owner_address = ''o'', vrf = None, tags = []\<rparr>\<rparr>"
  have "?f (state ?cur) (interaction ?d)
          = RejectedWith (ErrorObject ''ContractError'' ''init is not callable''
                   (Some ''ContractError: init is not callable at handle'') None)"
    by simp
  from JsHandlerApi_handle_ContractError
    [where contractFunction = ?f and currentResult = ?cur and interactionData = ?d, OF this]
  show ?thesis by simp
qed

section \<open>Properties of CacheableStateEvaluator.eval\<close>













lemma those_None:
  "None \<in> set xs \<Longrightarrow> those xs = None"
  by (induction xs) (auto split: option.splits)






text \<open>
  Without the cut the evaluation of the cycle does not finish, whatever the fuel.
\<close>

lemma readState_unguarded_cycle:
  "readState_unguarded fuel cycle_network cycle_reads ''A'' ''k1'' = None
   \<and> readState_unguarded fuel cycle_network cycle_reads ''B'' ''k1'' = None"
  by (induction fuel) (simp_all add: cycle_network_def cycle_reads_def interactions_upto_def example_tx_def)

text \<open>
  Claim C7. When \<open>eval\<close> is left with no missing interactions, a cached state, if there is
  one, is returned as it is, with the cache unchanged and no call made on the interaction
  state; with no cached state, the contract's \<open>initState\<close> with empty \<open>validity\<close> and empty
  \<open>errorMessages\<close> is put in the cache at the genesis sort key and returned with that sort
  key.
\<close>

theorem CacheableStateEvaluator_eval_no_missing:
  assumes "contractDefinition_txId ctx \<noteq> []"
    and "infLoopFix (contractDefinition_txId ctx)
           (case currentTx of None \<Rightarrow> [] | Some entries \<Rightarrow> entries) (sortedInteractions ctx) = []"
  shows "(\<forall>cached. cachedState ctx = Some cached
            \<longrightarrow> CacheableStateEvaluator_eval env genesisSortKey ctx currentTx cache
                  = Inr (cached, cache, []))
       \<and> (cachedState ctx = None
            \<longrightarrow> CacheableStateEvaluator_eval env genesisSortKey ctx currentTx cache
                  = Inr (SortKeyCacheResult (Some genesisSortKey)
                           \<lparr>state = contractDefinition_initState ctx, validity = Map.empty,
                             errorMessages = Map.empty\<rparr>,
                         LevelDbCache_put (contractDefinition_txId ctx, genesisSortKey)
                           \<lparr>state = contractDefinition_initState ctx, validity = Map.empty,
                             errorMessages = Map.empty\<rparr> cache,
                         [])
              \<and> LevelDbCache_get (contractDefinition_txId ctx, genesisSortKey)
                   (LevelDbCache_put (contractDefinition_txId ctx, genesisSortKey)
                      \<lparr>state = contractDefinition_initState ctx, validity = Map.empty,
                        errorMessages = Map.empty\<rparr> cache)
                  = Some (SortKeyCacheResult (Some genesisSortKey)
                           \<lparr>state = contractDefinition_initState ctx, validity = Map.empty,
                             errorMessages = Map.empty\<rparr>))"
  using assms
  by (auto simp: CacheableStateEvaluator_eval_def exactCacheHit_def Let_def LevelDbCache_get_def
      map_of_LevelDbCache_put split: option.splits)

theorem CacheableStateEvaluator_eval_no_missing_witness:
  "CacheableStateEvaluator_eval example_env ''000000000000,0000000000000,00''
     (example_ctx []) None []
   = Inr (SortKeyCacheResult (Some ''000000000000,0000000000000,00'')
            \<lparr>state = 1, validity = Map.empty, errorMessages = Map.empty\<rparr>,
          [((''A'', ''000000000000,0000000000000,00''),
            \<lparr>state = 1, validity = Map.empty, errorMessages = Map.empty\<rparr>)],
          [])
   \<and> CacheableStateEvaluator_eval example_env ''000000000000,0000000000000,00''
     ((example_ctx [])\<lparr>cachedState := Some (SortKeyCacheResult (Some ''k1'')
         \<lparr>state = 5, validity = [''t1'' \<mapsto> True], errorMessages = Map.empty\<rparr>),
        requestedSortKey := Some ''k2''\<rparr>) None []
   = Inr (SortKeyCacheResult (Some ''k1'')
            \<lparr>state = 5, validity = [''t1'' \<mapsto> True], errorMessages = Map.empty\<rparr>, [], [])"
proof -
  let ?g = "''000000000000,0000000000000,00''"
  let ?c2 = "(example_ctx [])\<lparr>cachedState := Some (SortKeyCacheResult (Some ''k1'')
         \<lparr>state = 5, validity = [''t1'' \<mapsto> True], errorMessages = Map.empty\<rparr>),
        requestedSortKey := Some ''k2''\<rparr>"
  have a1: "contractDefinition_txId (example_ctx []) \<noteq> []" by (simp add: example_ctx_def)
  have b1: "infLoopFix (contractDefinition_txId (example_ctx []))
           (case None of None \<Rightarrow> [] | Some entries \<Rightarrow> entries) (sortedInteractions (example_ctx [])) = []"
    by (simp add: example_ctx_def)
  have a2: "contractDefinition_txId ?c2 \<noteq> []" by (simp add: example_ctx_def)
  have b2: "infLoopFix (contractDefinition_txId ?c2)
           (case None of None \<Rightarrow> [] | Some entries \<Rightarrow> entries) (sortedInteractions ?c2) = []"
    by (simp add: example_ctx_def)
  from CacheableStateEvaluator_eval_no_missing [OF a1 b1, of example_env ?g "[]"]
  have 1: "CacheableStateEvaluator_eval example_env ?g (example_ctx []) None []
   = Inr (SortKeyCacheResult (Some ?g)
            \<lparr>state = 1, validity = Map.empty, errorMessages = Map.empty\<rparr>,
          [((''A'', ?g), \<lparr>state = 1, validity = Map.empty, errorMessages = Map.empty\<rparr>)], [])"
    by (simp add: example_ctx_def LevelDbCache_put_def)
  from CacheableStateEvaluator_eval_no_missing [OF a2 b2, of example_env ?g "[]"]
  have 2: "CacheableStateEvaluator_eval example_env ?g ?c2 None []
   = Inr (SortKeyCacheResult (Some ''k1'')
            \<lparr>state = 5, validity = [''t1'' \<mapsto> True], errorMessages = Map.empty\<rparr>, [], [])"
    by (simp add: example_ctx_def)
  from 1 2 show ?thesis by simp
qed


section \<open>Properties of DefaultStateEvaluator.doReadState\<close>













text \<open>
  Claim C6, as amended. An interaction on the direct path whose \<open>Input\<close> tag is missing,
  or whose \<open>Input\<close> tag is not parseable JSON, is skipped: the iteration only records the
  sort key and the initial entry of the interaction state, leaves the state, \<open>validity\<close>
  and \<open>errorMessages\<close> as they were (so \<open>validity[i.id]\<close> is not set), and the fold
  continues with the next interaction.
\<close>

theorem doReadState_skips_unreadable_input:
  assumes "\<not> shouldBreakAfterEvolve st" and "\<not> aborted env i" and "\<not> vrfFails env mi"
    and "\<not> evmSkips env mi"
    and "\<not> (isInteractWrite env mi (contractDefinition_txId ctx) \<and> internalWrites ctx)"
    and "getInputTag env mi (contractDefinition_txId (executionContext st)) = None
         \<or> (\<exists>inputTag. getInputTag env mi (contractDefinition_txId (executionContext st))
                          = Some inputTag
                        \<and> JSON_parse env inputTag = None)"
  shows "doReadState_step env ctx i mi st
           = Inr (st\<lparr>currentSortKey := Some (sortKey mi),
                     interactionStateLog := interactionStateLog st
                       @ [SetInitial (contract_txId ctx) (current st) (sortKey mi)]\<rparr>)
       \<and> doReadState_loop env ctx i (mi # rest) st
           = doReadState_loop env ctx (Suc i) rest
               (st\<lparr>currentSortKey := Some (sortKey mi),
                   interactionStateLog := interactionStateLog st
                     @ [SetInitial (contract_txId ctx) (current st) (sortKey mi)]\<rparr>)"
proof -
  have "doReadState_step env ctx i mi st
           = Inr (st\<lparr>currentSortKey := Some (sortKey mi),
                     interactionStateLog := interactionStateLog st
                       @ [SetInitial (contract_txId ctx) (current st) (sortKey mi)]\<rparr>)"
    using assms(2-6)
    by (auto simp: doReadState_step_def Let_def parseInput_def falsy_def)
  with assms(1) show ?thesis by simp
qed

theorem doReadState_skips_unreadable_input_witness:
  "doReadState_step example_env (example_ctx []) 0 (example_tx ''t1'' ''k1'' [])
     (example_state (example_ctx []))
   = Inr ((example_state (example_ctx []))
           \<lparr>currentSortKey := Some ''k1'',
            interactionStateLog :=
              [SetInitial ''A'' \<lparr>state = 1, validity = Map.empty, errorMessages = Map.empty\<rparr> ''k1'']\<rparr>)
   \<and> doReadState_step example_env (example_ctx []) 0 (example_tx ''t2'' ''k2'' [(''Input'', ''oops'')])
     (example_state (example_ctx []))
   = Inr ((example_state (example_ctx []))
           \<lparr>currentSortKey := Some ''k2'',
            interactionStateLog :=
              [SetInitial ''A'' \<lparr>state = 1, validity = Map.empty, errorMessages = Map.empty\<rparr> ''k2'']\<rparr>)"
proof -
  let ?ctx = "example_ctx []"
  let ?st = "example_state ?ctx"
  let ?t1 = "example_tx ''t1'' ''k1'' []"
  let ?t2 = "example_tx ''t2'' ''k2'' [(''Input'', ''oops'')]"
  have a: "\<not> shouldBreakAfterEvolve ?st" by (simp add: example_state_def)
  have b: "\<not> aborted example_env 0" by (simp add: example_env_def)
  have c: "\<not> vrfFails example_env tx" for tx
    by (simp add: vrfFails_def example_env_def split: option.splits)
  have d: "\<not> evmSkips example_env tx" for tx by (simp add: evmSkips_def example_env_def)
  have e: "\<not> (isInteractWrite example_env tx (contractDefinition_txId ?ctx) \<and> internalWrites ?ctx)"
    for tx by (simp add: example_ctx_def)
  have f1: "getInputTag example_env ?t1 (contractDefinition_txId (executionContext ?st)) = None
         \<or> (\<exists>inputTag. getInputTag example_env ?t1 (contractDefinition_txId (executionContext ?st))
                          = Some inputTag
                        \<and> JSON_parse example_env inputTag = None)"
    by (simp add: example_env_def example_tx_def)
  have f2: "getInputTag example_env ?t2 (contractDefinition_txId (executionContext ?st)) = None
         \<or> (\<exists>inputTag. getInputTag example_env ?t2 (contractDefinition_txId (executionContext ?st))
                          = Some inputTag
                        \<and> JSON_parse example_env inputTag = None)"
    by (simp add: example_env_def example_tx_def)
  from doReadState_skips_unreadable_input [OF a b c d e f1, of "[]"]
    doReadState_skips_unreadable_input [OF a b c d e f2, of "[]"]
  show ?thesis
    by (simp add: example_state_def example_ctx_def example_tx_def)
qed

theorem doReadState_unreadable_input_counterexample:
  "doReadState example_env [example_tx ''t1'' ''k1'' []]
     \<lparr>state = 1, validity = Map.empty, errorMessages = Map.empty\<rparr>
     (example_ctx [example_tx ''t1'' ''k1'' []]) []
   = Inr (SortKeyCacheResult (Some ''k1'')
            \<lparr>state = 1, validity = Map.empty, errorMessages = Map.empty\<rparr>,
          [],
          [SetInitial ''A'' \<lparr>state = 1, validity = Map.empty, errorMessages = Map.empty\<rparr> ''k1''])
   \<and> doReadState example_env [example_tx ''t2'' ''k2'' [(''Input'', ''oops'')]]
     \<lparr>state = 1, validity = Map.empty, errorMessages = Map.empty\<rparr>
     (example_ctx [example_tx ''t2'' ''k2'' [(''Input'', ''oops'')]]) []
   = Inr (SortKeyCacheResult (Some ''k2'')
            \<lparr>state = 1, validity = Map.empty, errorMessages = Map.empty\<rparr>,
          [],
          [SetInitial ''A'' \<lparr>state = 1, validity = Map.empty, errorMessages = Map.empty\<rparr> ''k2''])
   \<and> validity \<lparr>state = (1::nat), validity = Map.empty, errorMessages = Map.empty\<rparr> ''t1''
     \<noteq> Some False"
  by (simp add: doReadState_def doReadState_step_def example_env_def example_ctx_def example_tx_def
      vrfFails_def evmSkips_def lastConfirmed_def parseInput_def falsy_def)


end
